theory Spec2Isabelle
  imports Main "HOL-Library.Sublist" "HOL-Library.Word"
begin

section \<open>The OpenStack virtual machine of libretto: data\<close>

text \<open>
  The source is \<^verbatim>\<open>virtualmachine/openstack/vm.go\<close>. A Go slice that may be
  \<^verbatim>\<open>nil\<close> is a list option; a Go pointer that may be \<^verbatim>\<open>nil\<close> is an option;
  a Go \<^verbatim>\<open>error\<close> that may be \<^verbatim>\<open>nil\<close> is an \<open>error option\<close>.
\<close>

type_synonym byte = "8 word"

type_synonym 'a slice = "'a list option"

definition elems :: "'a slice \<Rightarrow> 'a list" where
  "elems s = (case s of None \<Rightarrow> [] | Some xs \<Rightarrow> xs)"

text \<open>
  The package-level error values of vm.go (lines 26-49), and \<open>Errorf\<close> for an error
  value made from a message: by \<^verbatim>\<open>fmt.Errorf\<close> in this file, or by another package.
\<close>

datatype error =
    ErrAuthOptions
  | ErrAuthenticatingClient
  | ErrInvalidRegion
  | ErrNoRegion
  | ErrNoFlavor
  | ErrNoImage
  | ErrCreatingInstance
  | ErrNoInstanceID
  | ErrNoInstance
  | ErrActionTimeout
  | ErrNoIPs
  | Errorf string

fun error_string :: "error \<Rightarrow> string" where
  "error_string ErrAuthOptions = ''Openstack credentials (username and password) are not set properly''"
| "error_string ErrAuthenticatingClient = ''Failed to authenticate the client''"
| "error_string ErrInvalidRegion = ''Invalid Openstack region''"
| "error_string ErrNoRegion = ''Missing Openstack region''"
| "error_string ErrNoFlavor = ''Requested flavor is not found''"
| "error_string ErrNoImage = ''Requested image is not found''"
| "error_string ErrCreatingInstance = ''Failed to create instance''"
| "error_string ErrNoInstanceID = ''Missing instance ID''"
| "error_string ErrNoInstance = ''No instance found''"
| "error_string ErrActionTimeout = ''Openstack action timeout''"
| "error_string ErrNoIPs = ''No IPs found for instance''"
| "error_string (Errorf s) = s"

text \<open>The verb \<^verbatim>\<open>%s\<close> of package fmt applied to an error that may be nil.\<close>

definition fmt_s :: "error option \<Rightarrow> string" where
  "fmt_s e = (case e of None \<Rightarrow> ''%!s(<nil>)'' | Some err \<Rightarrow> error_string err)"

text \<open>A value of type \<^verbatim>\<open>interface{}\<close> as package encoding/json decodes it.\<close>

datatype json =
    JNull
  | JBool bool
  | JNumber int
  | JString string
  | JArray "json list"
  | JObject "(string \<times> json) list"

text \<open>A Go call either returns or panics.\<close>

datatype 'a outcome = Panic | Return 'a

record ImageMetadata =
  im_ContainerFormat :: string
  im_DiskFormat :: string
  im_MinDisk :: int
  im_MinRAM :: int
  im_Name :: string

record Volume =
  vol_ID :: string
  vol_Device :: string
  vol_Name :: string
  vol_Size :: int
  vol_Type :: string

record Credentials =
  SSHUser :: string
  SSHPassword :: string
  SSHPrivateKey :: string

text \<open>
  Modelled from the spec: the type \<^verbatim>\<open>floatingips.FloatingIP\<close> belongs to gophercloud
  and is not among the sources. The spec's floating-IP record is a provider-assigned IP
  string and identifier; vm.go reads the fields \<^verbatim>\<open>IP\<close> and \<^verbatim>\<open>ID\<close> and no other.
  The fixed IP, the instance identifier and the pool are the other fields of the type:
  they travel with the record and are written when it is serialized.
\<close>

record FloatingIP_t =
  fip_ID :: string
  fip_FixedIP :: string
  fip_InstanceID :: string
  fip_IP :: string
  fip_Pool :: string

text \<open>
  Modelled from the spec: the type \<^verbatim>\<open>servers.Server\<close> belongs to gophercloud and is
  not among the sources. vm.go reads its fields \<^verbatim>\<open>ID\<close>, \<^verbatim>\<open>Status\<close> and
  \<^verbatim>\<open>Addresses\<close>, a \<^verbatim>\<open>map[string]interface{}\<close>: here an association list read
  with \<open>map_of\<close>.
\<close>

record Server =
  srv_ID :: string
  srv_Status :: string
  srv_Addresses :: "(string \<times> json) list"

text \<open>
  Modelled from the spec: the type \<^verbatim>\<open>networks.Network\<close> belongs to gophercloud and
  is not among the sources. vm.go reads its field \<^verbatim>\<open>Name\<close>.
\<close>

record Network =
  net_Name :: string

text \<open>The handle \<^verbatim>\<open>*gophercloud.ServiceClient\<close>, by the service it reaches.\<close>

datatype ServiceClient = ServiceClient string

record VM =
  IdentityEndpoint :: string
  Username :: string
  Password :: string
  Region :: string
  TenantName :: string
  FlavorName :: string
  ImageID :: string
  ImageMetadata :: ImageMetadata
  ImagePath :: string
  Volume :: Volume
  InstanceID :: string
  Name :: string
  Networks :: "string slice"
  FloatingIPPool :: string
  FloatingIP :: "FloatingIP_t option"
  SecurityGroup :: string
  UserData :: "byte slice"
  AdminPassword :: string
  Credentials :: Credentials
  computeClient :: "ServiceClient option"

record CreateOpts =
  co_Name :: string
  co_FlavorRef :: string
  co_ImageRef :: string
  co_Networks :: "string slice"
  co_SecurityGroups :: "string list"
  co_UserData :: "byte slice"
  co_AdminPass :: string

section \<open>The provider\<close>

text \<open>
  Every call that leaves vm.go for the provider (a gophercloud request, or a helper of
  the package that is not in vm.go) is recorded in a log, oldest call first. The log is
  the state of the world.
\<close>

datatype call =
    NewComputeClient
  | NewNetworkClient
  | FlavorIDFromName ServiceClient string
  | FindImageIDByName ServiceClient string
  | CreateImage ImageMetadata string
  | ServersCreate ServiceClient CreateOpts
  | ServersGet string
  | WaitUntil string string
  | WaitUntilSSHReady string
  | FloatingIPCreate ServiceClient string
  | FloatingIPAssociate ServiceClient string string
  | FloatingIPDisassociate ServiceClient string string
  | FloatingIPDelete ServiceClient string
  | CreateAndAttachVolume string Volume
  | DeattachAndDeleteVolume string string
  | DeleteVM ServiceClient string
  | NetworksGet ServiceClient string
  | Stop ServiceClient string

type_synonym world = "call list"

text \<open>
  What lies outside vm.go is a parameter: the provider's reply to each call, which may
  depend on every call made before it, and the constants of the packages \<^verbatim>\<open>lvm\<close>
  and \<^verbatim>\<open>net\<close>.
\<close>

record env =
  reply_NewComputeClient :: "world \<Rightarrow> VM \<Rightarrow> error + ServiceClient"
  reply_NewNetworkClient :: "world \<Rightarrow> VM \<Rightarrow> ServiceClient option \<times> error option"
  reply_FlavorIDFromName :: "world \<Rightarrow> ServiceClient \<Rightarrow> string \<Rightarrow> error + string"
  reply_FindImageIDByName :: "world \<Rightarrow> ServiceClient \<Rightarrow> string \<Rightarrow> error + string"
  reply_CreateImage :: "world \<Rightarrow> VM \<Rightarrow> error + string"
  reply_ServersCreate :: "world \<Rightarrow> ServiceClient \<Rightarrow> CreateOpts \<Rightarrow> error + Server"
  reply_ServersGet :: "world \<Rightarrow> VM \<Rightarrow> Server option \<times> error option"
  reply_WaitUntil :: "world \<Rightarrow> VM \<Rightarrow> string \<Rightarrow> error option"
  reply_WaitUntilSSHReady :: "world \<Rightarrow> VM \<Rightarrow> error option"
  reply_FloatingIPCreate :: "world \<Rightarrow> ServiceClient \<Rightarrow> string \<Rightarrow> error + FloatingIP_t"
  reply_FloatingIPAssociate :: "world \<Rightarrow> ServiceClient \<Rightarrow> string \<Rightarrow> string \<Rightarrow> error option"
  reply_FloatingIPDisassociate :: "world \<Rightarrow> ServiceClient \<Rightarrow> string \<Rightarrow> string \<Rightarrow> error option"
  reply_FloatingIPDelete :: "world \<Rightarrow> ServiceClient \<Rightarrow> string \<Rightarrow> error option"
  reply_CreateAndAttachVolume :: "world \<Rightarrow> VM \<Rightarrow> error + string \<times> string"
  reply_DeattachAndDeleteVolume :: "world \<Rightarrow> VM \<Rightarrow> error option"
  reply_DeleteVM :: "world \<Rightarrow> ServiceClient \<Rightarrow> string \<Rightarrow> error option"
  reply_NetworksGet :: "world \<Rightarrow> ServiceClient \<Rightarrow> string \<Rightarrow> error + Network"
  reply_Stop :: "world \<Rightarrow> ServiceClient \<Rightarrow> string \<Rightarrow> error option"
  lvm_VMRunning :: string
  lvm_VMHalted :: string
  lvm_VMError :: string
  lvm_VMUnknown :: string
  lvm_ErrVMInfoFailed :: error
  net_ParseIP :: "string \<Rightarrow> byte list option"

subsection \<open>The gophercloud requests made in vm.go\<close>

definition flavors_IDFromName ::
  "env \<Rightarrow> ServiceClient \<Rightarrow> string \<Rightarrow> world \<Rightarrow> (error + string) \<times> world" where
  "flavors_IDFromName P client name w =
     (reply_FlavorIDFromName P w client name, w @ [FlavorIDFromName client name])"

definition servers_Create ::
  "env \<Rightarrow> ServiceClient \<Rightarrow> CreateOpts \<Rightarrow> world \<Rightarrow> (error + Server) \<times> world" where
  "servers_Create P client opts w =
     (reply_ServersCreate P w client opts, w @ [ServersCreate client opts])"

definition floatingips_Create ::
  "env \<Rightarrow> ServiceClient \<Rightarrow> string \<Rightarrow> world \<Rightarrow> (error + FloatingIP_t) \<times> world" where
  "floatingips_Create P client pool w =
     (reply_FloatingIPCreate P w client pool, w @ [FloatingIPCreate client pool])"

definition floatingips_AssociateInstance ::
  "env \<Rightarrow> ServiceClient \<Rightarrow> string \<Rightarrow> string \<Rightarrow> world \<Rightarrow> error option \<times> world" where
  "floatingips_AssociateInstance P client serverID ip w =
     (reply_FloatingIPAssociate P w client serverID ip,
      w @ [FloatingIPAssociate client serverID ip])"

definition floatingips_DisassociateInstance ::
  "env \<Rightarrow> ServiceClient \<Rightarrow> string \<Rightarrow> string \<Rightarrow> world \<Rightarrow> error option \<times> world" where
  "floatingips_DisassociateInstance P client serverID ip w =
     (reply_FloatingIPDisassociate P w client serverID ip,
      w @ [FloatingIPDisassociate client serverID ip])"

definition floatingips_Delete ::
  "env \<Rightarrow> ServiceClient \<Rightarrow> string \<Rightarrow> world \<Rightarrow> error option \<times> world" where
  "floatingips_Delete P client fid w =
     (reply_FloatingIPDelete P w client fid, w @ [FloatingIPDelete client fid])"

definition networks_Get ::
  "env \<Rightarrow> ServiceClient \<Rightarrow> string \<Rightarrow> world \<Rightarrow> (error + Network) \<times> world" where
  "networks_Get P client networkID w =
     (reply_NetworksGet P w client networkID, w @ [NetworksGet client networkID])"

definition ss_Stop ::
  "env \<Rightarrow> ServiceClient \<Rightarrow> string \<Rightarrow> world \<Rightarrow> error option \<times> world" where
  "ss_Stop P client serverID w =
     (reply_Stop P w client serverID, w @ [Stop client serverID])"

subsection \<open>The helpers of the package that are not in vm.go\<close>

text \<open>
  Modelled from the spec: \<^verbatim>\<open>getComputeClient\<close> is not among the sources. The field
  \<^verbatim>\<open>computeClient\<close> of the descriptor is documented in vm.go (lines 174-176) as the
  handle that is "set within Provision and set to nil in destroy", and Provision sets it
  nowhere but through this helper: the handle the descriptor holds is returned, and a
  missing one is requested from the provider and stored.
\<close>

definition getComputeClient ::
  "env \<Rightarrow> VM \<Rightarrow> world \<Rightarrow> (error + ServiceClient) \<times> VM \<times> world" where
  "getComputeClient P vm w =
     (case computeClient vm of
        Some client \<Rightarrow> (Inr client, vm, w)
      | None \<Rightarrow>
          (case reply_NewComputeClient P w vm of
             Inl err \<Rightarrow> (Inl err, vm, w @ [NewComputeClient])
           | Inr client \<Rightarrow>
               (Inr client, vm\<lparr>computeClient := Some client\<rparr>, w @ [NewComputeClient])))"

text \<open>
  Modelled from the spec: \<^verbatim>\<open>getNetworkClient\<close> is not among the sources. GetIPs
  tests both the client and the error it returns against nil.
\<close>

definition getNetworkClient ::
  "env \<Rightarrow> VM \<Rightarrow> world \<Rightarrow> (ServiceClient option \<times> error option) \<times> world" where
  "getNetworkClient P vm w = (reply_NewNetworkClient P w vm, w @ [NewNetworkClient])"

text \<open>
  Modelled from the spec: \<^verbatim>\<open>getServer\<close> is not among the sources. It is the
  spec's \<^verbatim>\<open>InstanceStatus(id)\<close> query, read-only on the descriptor; GetState's
  comment (vm.go lines 494-496) says that the missing instance ID is an error and that
  OpenStack is queried. GetState and GetIPs test both the server and the error against nil.
\<close>

definition getServer ::
  "env \<Rightarrow> VM \<Rightarrow> world \<Rightarrow> (Server option \<times> error option) \<times> world" where
  "getServer P vm w =
     (if InstanceID vm = [] then ((None, Some ErrNoInstanceID), w)
      else (reply_ServersGet P w vm, w @ [ServersGet (InstanceID vm)]))"

text \<open>
  Modelled from the spec: \<^verbatim>\<open>findImageIDByName\<close> (the search of the image resolver)
  is not among the sources. The search yields an identifier, empty when no image has the
  name, or an error.
\<close>

definition findImageIDByName ::
  "env \<Rightarrow> ServiceClient \<Rightarrow> string \<Rightarrow> world \<Rightarrow> (error + string) \<times> world" where
  "findImageIDByName P client name w =
     (reply_FindImageIDByName P w client name, w @ [FindImageIDByName client name])"

text \<open>
  Modelled from the spec: \<^verbatim>\<open>createImage\<close> (the upload of the image resolver) is not
  among the sources. It creates an image from the metadata and the path of the descriptor,
  waits for it to leave the queued state and yields its identifier, or an error. The
  descriptor is only read.
\<close>

definition createImage :: "env \<Rightarrow> VM \<Rightarrow> world \<Rightarrow> (error + string) \<times> world" where
  "createImage P vm w =
     (reply_CreateImage P w vm, w @ [CreateImage (ImageMetadata vm) (ImagePath vm)])"

text \<open>
  Modelled from the spec: \<^verbatim>\<open>waitUntil\<close> (the readiness poller on the state of the
  instance) is not among the sources. A poll ends with the target state reached (nil),
  with the deadline elapsed or with an error; which one is the provider's to say, and
  the polling is one entry of the log. The descriptor is only read.
\<close>

definition waitUntil :: "env \<Rightarrow> VM \<Rightarrow> string \<Rightarrow> world \<Rightarrow> error option \<times> world" where
  "waitUntil P vm state w =
     (reply_WaitUntil P w vm state, w @ [WaitUntil (InstanceID vm) state])"

text \<open>
  Modelled from the spec: \<^verbatim>\<open>waitUntilSSHReady\<close> (the readiness poller on the SSH
  handshake) is not among the sources. It ends like \<open>waitUntil\<close> does, and only reads
  the descriptor.
\<close>

definition waitUntilSSHReady :: "env \<Rightarrow> VM \<Rightarrow> world \<Rightarrow> error option \<times> world" where
  "waitUntilSSHReady P vm w =
     (reply_WaitUntilSSHReady P w vm, w @ [WaitUntilSSHReady (InstanceID vm)])"

text \<open>
  Modelled from the spec: \<^verbatim>\<open>createAndAttachVolume\<close> (the attach path of the volume
  manager) is not among the sources. It records the volume identifier and the device on
  the descriptor only after the attach call has succeeded, and returns the error of the
  step that broke otherwise.
\<close>

definition createAndAttachVolume ::
  "env \<Rightarrow> VM \<Rightarrow> world \<Rightarrow> error option \<times> VM \<times> world" where
  "createAndAttachVolume P vm w =
     (case reply_CreateAndAttachVolume P w vm of
        Inl err \<Rightarrow> (Some err, vm, w @ [CreateAndAttachVolume (InstanceID vm) (Volume vm)])
      | Inr (vid, device) \<Rightarrow>
          (None, vm\<lparr>Volume := (Volume vm)\<lparr>vol_ID := vid, vol_Device := device\<rparr>\<rparr>,
           w @ [CreateAndAttachVolume (InstanceID vm) (Volume vm)]))"

text \<open>
  Modelled from the spec: \<^verbatim>\<open>deattachAndDeleteVolume\<close> (the detach path of the volume
  manager) is not among the sources. It detaches the volume, waits and deletes it, and
  returns the error of the step that broke; the spec names no write to the descriptor on
  this path.
\<close>

definition deattachAndDeleteVolume :: "env \<Rightarrow> VM \<Rightarrow> world \<Rightarrow> error option \<times> world" where
  "deattachAndDeleteVolume P vm w =
     (reply_DeattachAndDeleteVolume P w vm,
      w @ [DeattachAndDeleteVolume (InstanceID vm) (vol_ID (Volume vm))])"

text \<open>
  Modelled from the spec: \<^verbatim>\<open>deleteVM\<close> is not among the sources. It is the spec's
  \<^verbatim>\<open>DeleteInstance(id)\<close>, one request to the provider.
\<close>

definition deleteVM :: "env \<Rightarrow> ServiceClient \<Rightarrow> string \<Rightarrow> world \<Rightarrow> error option \<times> world" where
  "deleteVM P client iid w = (reply_DeleteVM P w client iid, w @ [DeleteVM client iid])"

section \<open>Destroy (vm.go lines 425-480)\<close>

text \<open>Lines 437-449: the floating IP is disassociated, and deleted if that succeeded.\<close>

definition destroy_floating_ip ::
  "env \<Rightarrow> ServiceClient \<Rightarrow> VM \<Rightarrow> world \<Rightarrow> error list \<times> world" where
  "destroy_floating_ip P client vm w =
     (case FloatingIP vm of
        None \<Rightarrow> ([], w)
      | Some fip \<Rightarrow>
          (case floatingips_DisassociateInstance P client (InstanceID vm) (fip_IP fip) w of
             (Some err, w1) \<Rightarrow>
               ([Errorf (''unable to disassociate floating ip from instance: '' @ error_string err)],
                w1)
           | (None, w1) \<Rightarrow>
               (case floatingips_Delete P client (fip_ID fip) w1 of
                  (Some err, w2) \<Rightarrow>
                    ([Errorf (''unable to delete floating ip: '' @ error_string err)], w2)
                | (None, w2) \<Rightarrow> ([], w2))))"

text \<open>Lines 451-457: the volume, if one is attached.\<close>

definition destroy_volume :: "env \<Rightarrow> VM \<Rightarrow> world \<Rightarrow> error list \<times> world" where
  "destroy_volume P vm w =
     (if vol_ID (Volume vm) \<noteq> [] then
        (case deattachAndDeleteVolume P vm w of
           (Some err, w1) \<Rightarrow> ([err], w1)
         | (None, w1) \<Rightarrow> ([], w1))
      else ([], w))"

text \<open>Lines 459-463: the instance.\<close>

definition destroy_instance ::
  "env \<Rightarrow> ServiceClient \<Rightarrow> VM \<Rightarrow> world \<Rightarrow> error list \<times> world" where
  "destroy_instance P client vm w =
     (case deleteVM P client (InstanceID vm) w of
        (Some err, w1) \<Rightarrow> ([err], w1)
      | (None, w1) \<Rightarrow> ([], w1))"

text \<open>Lines 465-476: the collected errors are folded into one, the first one as it is.\<close>

fun join_from :: "error \<Rightarrow> error list \<Rightarrow> error" where
  "join_from returnedErr [] = returnedErr"
| "join_from returnedErr (err # errs) =
     join_from (Errorf (error_string returnedErr @ '', '' @ error_string err)) errs"

definition join_errors :: "error list \<Rightarrow> error option" where
  "join_errors errs = (case errs of [] \<Rightarrow> None | err # rest \<Rightarrow> Some (join_from err rest))"

definition Destroy :: "env \<Rightarrow> VM \<Rightarrow> world \<Rightarrow> error option \<times> VM \<times> world" where
  "Destroy P vm w =
     (if InstanceID vm = [] then (Some ErrNoInstanceID, vm, w)
      else
        (case getComputeClient P vm w of
           (Inl err, vm1, w1) \<Rightarrow>
             (Some (Errorf (''compute client is not set for the VM, '' @ error_string err)),
              vm1, w1)
         | (Inr client, vm1, w1) \<Rightarrow>
             (case destroy_floating_ip P client vm1 w1 of (errors1, w2) \<Rightarrow>
              (case destroy_volume P vm1 w2 of (errors2, w3) \<Rightarrow>
               (case destroy_instance P client vm1 w3 of (errors3, w4) \<Rightarrow>
                  (join_errors (errors1 @ errors2 @ errors3),
                   vm1\<lparr>computeClient := None\<rparr>, w4))))))"

section \<open>Provision (vm.go lines 272-383)\<close>

text \<open>
  Provision is one Go function. It is written here as the chain of its stages, each
  stage continuing the one before it: a stage yields \<open>Inl\<close> of what Provision returns
  when it returns in that stage, and \<open>Inr\<close> of the local variables, the descriptor and
  the world when control passes on.
\<close>

text \<open>Lines 284-302: the image identifier.\<close>

definition provision_image ::
  "env \<Rightarrow> ServiceClient \<Rightarrow> VM \<Rightarrow> world \<Rightarrow> (error \<times> VM \<times> world) + (string \<times> VM \<times> world)" where
  "provision_image P client vm w =
     (if ImageID vm = [] then
        (case findImageIDByName P client (im_Name (ImageMetadata vm)) w of
           (Inl err, w1) \<Rightarrow>
             Inl (Errorf (''error on searching image: '' @ error_string err), vm, w1)
         | (Inr imageID, w1) \<Rightarrow>
             (if imageID = [] then
                (case createImage P vm w1 of
                   (Inl err, w2) \<Rightarrow> Inl (err, vm, w2)
                 | (Inr imageID', w2) \<Rightarrow> Inr (imageID', vm\<lparr>ImageID := imageID'\<rparr>, w2))
              else Inr (imageID, vm\<lparr>ImageID := imageID\<rparr>, w1)))
      else Inr (ImageID vm, vm, w))"

text \<open>
  Lines 310-313: the list of networks is appended to a nil slice, so it stays nil when
  the descriptor names no network.
\<close>

definition listOfNetworks :: "VM \<Rightarrow> string slice" where
  "listOfNetworks vm = (if elems (Networks vm) = [] then None else Some (elems (Networks vm)))"

text \<open>Lines 304-323: the options of the create request.\<close>

definition createOpts :: "VM \<Rightarrow> string \<Rightarrow> string \<Rightarrow> CreateOpts" where
  "createOpts vm flavorID imageID =
     \<lparr>co_Name = Name vm,
      co_FlavorRef = flavorID,
      co_ImageRef = imageID,
      co_Networks = listOfNetworks vm,
      co_SecurityGroups = [if SecurityGroup vm = [] then ''default'' else SecurityGroup vm],
      co_UserData = UserData vm,
      co_AdminPass = AdminPassword vm\<rparr>"

text \<open>Lines 273-339: up to the instance being created and its identifier recorded.\<close>

definition Provision_create ::
  "env \<Rightarrow> VM \<Rightarrow> world \<Rightarrow>
     (error option \<times> VM \<times> world) + (ServiceClient \<times> Server \<times> VM \<times> world)" where
  "Provision_create P vm w =
     (case getComputeClient P vm w of
        (Inl err, vm1, w1) \<Rightarrow>
          Inl (Some (Errorf (''compute client is not set for the VM: '' @ error_string err)),
               vm1, w1)
      | (Inr client, vm1, w1) \<Rightarrow>
          (case flavors_IDFromName P client (FlavorName vm1) w1 of
             (Inl err, w2) \<Rightarrow> Inl (Some ErrNoFlavor, vm1, w2)
           | (Inr flavorID, w2) \<Rightarrow>
               (case provision_image P client vm1 w2 of
                  Inl (err, vm3, w3) \<Rightarrow> Inl (Some err, vm3, w3)
                | Inr (imageID, vm3, w3) \<Rightarrow>
                    (case servers_Create P client (createOpts vm3 flavorID imageID) w3 of
                       (Inl err, w4) \<Rightarrow> Inl (Some err, vm3, w4)
                     | (Inr server, w4) \<Rightarrow>
                         Inr (client, server, vm3\<lparr>InstanceID := srv_ID server\<rparr>, w4)))))"

text \<open>Lines 330-336: the closure \<^verbatim>\<open>cleanup\<close>.\<close>

definition cleanup :: "env \<Rightarrow> error \<Rightarrow> VM \<Rightarrow> world \<Rightarrow> error option \<times> VM \<times> world" where
  "cleanup P err vm w =
     (case Destroy P vm w of
        (Some errDestroy, vm1, w1) \<Rightarrow>
          (Some (Errorf (error_string err @ '' '' @ error_string errDestroy)), vm1, w1)
      | (None, vm1, w1) \<Rightarrow> (Some err, vm1, w1))"

text \<open>Lines 341-345: the wait for the running state.\<close>

definition Provision_running ::
  "env \<Rightarrow> VM \<Rightarrow> world \<Rightarrow>
     (error option \<times> VM \<times> world) + (ServiceClient \<times> Server \<times> VM \<times> world)" where
  "Provision_running P vm w =
     (case Provision_create P vm w of
        Inl r \<Rightarrow> Inl r
      | Inr (client, server, vm1, w1) \<Rightarrow>
          (case waitUntil P vm1 (lvm_VMRunning P) w1 of
             (Some err, w2) \<Rightarrow> Inl (cleanup P err vm1 w2)
           | (None, w2) \<Rightarrow> Inr (client, server, vm1, w2)))"

text \<open>Lines 347-358: the floating IP is allocated from the pool.\<close>

definition Provision_allocate ::
  "env \<Rightarrow> VM \<Rightarrow> world \<Rightarrow>
     (error option \<times> VM \<times> world) + (ServiceClient \<times> Server \<times> FloatingIP_t \<times> VM \<times> world)" where
  "Provision_allocate P vm w =
     (case Provision_running P vm w of
        Inl r \<Rightarrow> Inl r
      | Inr (client, server, vm1, w1) \<Rightarrow>
          (if FloatingIPPool vm1 = [] then
             Inl (cleanup P (Errorf ''empty floating IP pool'') vm1 w1)
           else
             (case floatingips_Create P client (FloatingIPPool vm1) w1 of
                (Inl err, w2) \<Rightarrow>
                  Inl (cleanup P
                         (Errorf (''unable to create a floating ip: '' @ error_string err)) vm1 w2)
              | (Inr fip, w2) \<Rightarrow> Inr (client, server, fip, vm1, w2))))"

text \<open>Lines 360-383: association, the wait for SSH, the volume.\<close>

definition Provision :: "env \<Rightarrow> VM \<Rightarrow> world \<Rightarrow> error option \<times> VM \<times> world" where
  "Provision P vm w =
     (case Provision_allocate P vm w of
        Inl r \<Rightarrow> r
      | Inr (client, server, fip, vm1, w1) \<Rightarrow>
          (case floatingips_AssociateInstance P client (srv_ID server) (fip_IP fip) w1 of
             (Some err, w2) \<Rightarrow>
               (case floatingips_Delete P client (fip_ID fip) w2 of
                  (errFipDelete, w3) \<Rightarrow>
                    cleanup P
                      (Errorf (''unable to associate a floating ip: ''
                               @ error_string (Errorf (error_string err @ '' '' @ fmt_s errFipDelete))))
                      vm1 w3)
           | (None, w2) \<Rightarrow>
               (case waitUntilSSHReady P (vm1\<lparr>FloatingIP := Some fip\<rparr>) w2 of
                  (Some err, w3) \<Rightarrow> cleanup P err (vm1\<lparr>FloatingIP := Some fip\<rparr>) w3
                | (None, w3) \<Rightarrow>
                    (if vol_Size (Volume vm1) > 0 then
                       (case createAndAttachVolume P (vm1\<lparr>FloatingIP := Some fip\<rparr>) w3 of
                          (Some err, vm4, w4) \<Rightarrow> cleanup P err vm4 w4
                        | (None, vm4, w4) \<Rightarrow> (None, vm4, w4))
                     else (None, vm1\<lparr>FloatingIP := Some fip\<rparr>, w3)))))"

section \<open>GetState and Halt (vm.go lines 497-548)\<close>

definition GetState :: "env \<Rightarrow> VM \<Rightarrow> world \<Rightarrow> (string \<times> error option) \<times> world" where
  "GetState P vm w =
     (case getServer P vm w of
        ((server, Some err), w1) \<Rightarrow> (([], Some err), w1)
      | ((None, None), w1) \<Rightarrow> (([], Some (lvm_ErrVMInfoFailed P)), w1)
      | ((Some server, None), w1) \<Rightarrow>
          (if srv_Status server = ''ACTIVE'' then ((lvm_VMRunning P, None), w1)
           else if srv_Status server = ''SHUTOFF'' then ((lvm_VMHalted P, None), w1)
           else if srv_Status server = ''ERROR'' then ((lvm_VMError P, None), w1)
           else ((lvm_VMUnknown P, None), w1)))"

definition Halt :: "env \<Rightarrow> VM \<Rightarrow> world \<Rightarrow> error option \<times> VM \<times> world" where
  "Halt P vm w =
     (if InstanceID vm = [] then (Some ErrNoInstanceID, vm, w)
      else
        (case getComputeClient P vm w of
           (Inl err, vm1, w1) \<Rightarrow>
             (Some (Errorf (''compute client is not set for the VM, '' @ error_string err)),
              vm1, w1)
         | (Inr client, vm1, w1) \<Rightarrow>
             (case GetState P vm1 w1 of
                ((state, Some err), w2) \<Rightarrow> (Some err, vm1, w2)
              | ((state, None), w2) \<Rightarrow>
                  (if state \<noteq> lvm_VMRunning P then
                     (Some (Errorf ''the VM is not active, so cannot be halted''), vm1, w2)
                   else
                     (case ss_Stop P client (InstanceID vm1) w2 of
                        (Some err, w3) \<Rightarrow>
                          (Some (Errorf (''failed to stop the instance: '' @ error_string err)),
                           vm1, w3)
                      | (None, w3) \<Rightarrow>
                          (case waitUntil P vm1 (lvm_VMHalted P) w3 of
                             (r, w4) \<Rightarrow> (r, vm1, w4)))))))"

section \<open>GetIPs (vm.go lines 388-422)\<close>

definition PublicIP :: nat where
  "PublicIP = 0"

definition PrivateIP :: nat where
  "PrivateIP = 1"

text \<open>
  A \<^verbatim>\<open>net.IP\<close> is a byte slice, nil when absent. Lines 408-418: the loop over the
  address blocks of one network. Each of the three type assertions has the one-value
  form, which panics when the value is missing or of another type.
\<close>

fun address_loop :: "env \<Rightarrow> json list \<Rightarrow> byte slice list \<Rightarrow> byte slice list outcome" where
  "address_loop P [] ips = Return ips"
| "address_loop P (addressElement # rest) ips =
     (case addressElement of
        JObject addressBlock \<Rightarrow>
          (case map_of addressBlock ''OS-EXT-IPS:type'' of
             Some (JString ipType) \<Rightarrow>
               (case map_of addressBlock ''addr'' of
                  Some (JString ip) \<Rightarrow>
                    (let ips1 = (if ipType = ''floating''
                                 then ips[PublicIP := net_ParseIP P ip] else ips);
                         ips2 = (if ipType = ''fixed''
                                 then ips1[PrivateIP := net_ParseIP P ip] else ips1)
                     in address_loop P rest ips2)
                | _ \<Rightarrow> Panic)
           | _ \<Rightarrow> Panic)
      | _ \<Rightarrow> Panic)"

text \<open>Lines 401-419: the loop over the networks of the descriptor.\<close>

fun networks_loop ::
  "env \<Rightarrow> ServiceClient \<Rightarrow> Server \<Rightarrow> string list \<Rightarrow> byte slice list \<Rightarrow> world \<Rightarrow>
     (byte slice list option \<times> error option) outcome \<times> world" where
  "networks_loop P client server [] ips w = (Return (Some ips, None), w)"
| "networks_loop P client server (networkID # rest) ips w =
     (case networks_Get P client networkID w of
        (Inl err, w1) \<Rightarrow> (Return (None, Some err), w1)
      | (Inr network, w1) \<Rightarrow>
          (case map_of (srv_Addresses server) (net_Name network) of
             Some (JArray addressSlice) \<Rightarrow>
               (case address_loop P addressSlice ips of
                  Panic \<Rightarrow> (Panic, w1)
                | Return ips' \<Rightarrow> networks_loop P client server rest ips' w1)
           | _ \<Rightarrow> (Panic, w1)))"

definition GetIPs ::
  "env \<Rightarrow> VM \<Rightarrow> world \<Rightarrow> (byte slice list option \<times> error option) outcome \<times> world" where
  "GetIPs P vm w =
     (case getServer P vm w of
        ((Some server, None), w1) \<Rightarrow>
          (case getNetworkClient P vm w1 of
             ((Some client, None), w2) \<Rightarrow>
               networks_loop P client server (elems (Networks vm)) [None, None] w2
           | ((_, err), w2) \<Rightarrow> (Return (None, err), w2))
      | ((_, err), w1) \<Rightarrow> (Return (None, err), w1))"

text \<open>
  The address strings that a server's address table holds under a flag: every block,
  of every network, whose \<^verbatim>\<open>OS-EXT-IPS:type\<close> is the flag.
\<close>

definition block_addrs :: "string \<Rightarrow> json \<Rightarrow> string list" where
  "block_addrs flag block =
     (case block of
        JObject addressBlock \<Rightarrow>
          (case (map_of addressBlock ''OS-EXT-IPS:type'', map_of addressBlock ''addr'') of
             (Some (JString ipType), Some (JString ip)) \<Rightarrow> (if ipType = flag then [ip] else [])
           | _ \<Rightarrow> [])
      | _ \<Rightarrow> [])"

definition entry_addrs :: "string \<Rightarrow> json \<Rightarrow> string list" where
  "entry_addrs flag entry =
     (case entry of JArray addressSlice \<Rightarrow> concat (map (block_addrs flag) addressSlice) | _ \<Rightarrow> [])"

definition flagged_addrs :: "string \<Rightarrow> Server \<Rightarrow> string list" where
  "flagged_addrs flag server = concat (map (entry_addrs flag \<circ> snd) (srv_Addresses server))"

section \<open>MarshalJSON (vm.go lines 182-262)\<close>

text \<open>
  The text of the JSON document is not modelled: \<^verbatim>\<open>json.Marshal\<close> of the alias
  followed by \<^verbatim>\<open>json.Unmarshal\<close> into an \<^verbatim>\<open>interface{}\<close> yields the tree below.
  Every field of the alias is a string, an integer, a byte slice, a string slice or a
  struct or pointer of these, so neither call returns an error. The base-64 text of a
  byte slice is that of the standard encoding of package encoding/base64. The fields that
  encoding/json writes for a gophercloud floating IP are the parameter \<open>fip_fields\<close>:
  the struct tags are not among the sources, and by the comment of lines 179-181 the
  identifier is not one of the fields.
\<close>

text \<open>
  A string on its way through the document: encoding/json writes the replacement
  character U+FFFD (the bytes EF BF BD) for every byte that does not begin a valid UTF-8
  encoding, and copies every valid encoding as it is. \<open>rune_size\<close> is the length of
  the valid encoding at the head of the bytes, 0 when there is none; the ranges of the
  second byte are those of package unicode/utf8.
\<close>

definition continuation :: "nat \<Rightarrow> bool" where
  "continuation b \<longleftrightarrow> 128 \<le> b \<and> b \<le> 191"

definition second_ok :: "nat \<Rightarrow> nat \<Rightarrow> bool" where
  "second_ok b c =
     (if b = 224 then 160 \<le> c \<and> c \<le> 191
      else if b = 237 then 128 \<le> c \<and> c \<le> 159
      else if b = 240 then 144 \<le> c \<and> c \<le> 191
      else if b = 244 then 128 \<le> c \<and> c \<le> 143
      else 128 \<le> c \<and> c \<le> 191)"

fun rune_size :: "nat list \<Rightarrow> nat" where
  "rune_size [] = 0"
| "rune_size (b # bs) =
     (if b < 128 then 1
      else if 194 \<le> b \<and> b \<le> 223 then
        (case bs of c # _ \<Rightarrow> if continuation c then 2 else 0 | _ \<Rightarrow> 0)
      else if 224 \<le> b \<and> b \<le> 239 then
        (case bs of c # d # _ \<Rightarrow> if second_ok b c \<and> continuation d then 3 else 0 | _ \<Rightarrow> 0)
      else if 240 \<le> b \<and> b \<le> 244 then
        (case bs of
           c # d # e # _ \<Rightarrow>
             if second_ok b c \<and> continuation d \<and> continuation e then 4 else 0
         | _ \<Rightarrow> 0)
      else 0)"

text \<open>The first argument counts the bytes still to copy of the encoding under way.\<close>

fun coerce_utf8 :: "nat \<Rightarrow> nat list \<Rightarrow> nat list" where
  "coerce_utf8 k [] = []"
| "coerce_utf8 (Suc k) (b # bs) = b # coerce_utf8 k bs"
| "coerce_utf8 0 (b # bs) =
     (if rune_size (b # bs) = 0 then [239, 191, 189] @ coerce_utf8 0 bs
      else b # coerce_utf8 (rune_size (b # bs) - 1) bs)"

definition json_string :: "string \<Rightarrow> string" where
  "json_string s = map char_of (coerce_utf8 0 (map of_char s))"

text \<open>
  A Go \<^verbatim>\<open>int\<close> (64 bits) on its way through the document: it is written exactly
  and decoded into a \<^verbatim>\<open>float64\<close>, the nearest number with 53 significant bits,
  the even one of two equally near.
\<close>

function bit_length :: "int \<Rightarrow> nat" where
  "bit_length n = (if n \<le> 0 then 0 else Suc (bit_length (n div 2)))"
  by auto

termination
  by (relation "measure nat") auto

declare bit_length.simps [simp del]

definition float64_of_int :: "int \<Rightarrow> int" where
  "float64_of_int n =
     (let a = \<bar>n\<bar>;
          k = bit_length a - 53;
          q = a div 2 ^ k;
          r = a mod 2 ^ k;
          q' = (if 2 * r > 2 ^ k \<or> (2 * r = 2 ^ k \<and> odd q) then q + 1 else q)
      in sgn n * (q' * 2 ^ k))"

definition JStr :: "string \<Rightarrow> json" where
  "JStr s = JString (json_string s)"

definition JNum :: "int \<Rightarrow> json" where
  "JNum n = JNumber (float64_of_int n)"

definition base64_alphabet :: string where
  "base64_alphabet = ''ABCDEFGHIJKLMNOPQRSTUVWXYZabcdefghijklmnopqrstuvwxyz0123456789+/''"

fun base64_nat :: "nat list \<Rightarrow> string" where
  "base64_nat [] = []"
| "base64_nat [a] =
     [base64_alphabet ! (a div 4), base64_alphabet ! ((a mod 4) * 16), CHR ''='', CHR ''='']"
| "base64_nat [a, b] =
     [base64_alphabet ! (a div 4), base64_alphabet ! ((a mod 4) * 16 + b div 16),
      base64_alphabet ! ((b mod 16) * 4), CHR ''='']"
| "base64_nat (a # b # c # rest) =
     [base64_alphabet ! (a div 4), base64_alphabet ! ((a mod 4) * 16 + b div 16),
      base64_alphabet ! ((b mod 16) * 4 + c div 64), base64_alphabet ! (c mod 64)]
     @ base64_nat rest"

definition base64 :: "byte list \<Rightarrow> string" where
  "base64 bs = base64_nat (map unat bs)"

definition json_ImageMetadata :: "ImageMetadata \<Rightarrow> json" where
  "json_ImageMetadata im =
     JObject
       ((if im_ContainerFormat im = [] then [] else [(''container_format'', JStr (im_ContainerFormat im))])
        @ (if im_DiskFormat im = [] then [] else [(''disk_format'', JStr (im_DiskFormat im))])
        @ (if im_MinDisk im = 0 then [] else [(''min_disk'', JNum (im_MinDisk im))])
        @ (if im_MinRAM im = 0 then [] else [(''min_ram'', JNum (im_MinRAM im))])
        @ [(''name'', JStr (im_Name im))])"

definition json_Volume :: "Volume \<Rightarrow> json" where
  "json_Volume v =
     JObject
       [(''ID'', JStr (vol_ID v)),
        (''Device'', JStr (vol_Device v)),
        (''Name'', JStr (vol_Name v)),
        (''Size'', JNum (vol_Size v)),
        (''Type'', JStr (vol_Type v))]"

definition json_credsAlias :: "Credentials \<Rightarrow> json" where
  "json_credsAlias c =
     JObject
       [(''SSHUser'', JStr (SSHUser c)),
        (''SSHPassword'', JStr (SSHPassword c)),
        (''SSHPrivateKey'', JStr (SSHPrivateKey c))]"

text \<open>Lines 192-243: the alias and its JSON tree.\<close>

definition json_vmAlias :: "(FloatingIP_t \<Rightarrow> (string \<times> json) list) \<Rightarrow> VM \<Rightarrow> json" where
  "json_vmAlias fip_fields vm =
     JObject
       [(''IdentityEndpoint'', JStr (IdentityEndpoint vm)),
        (''Username'', JStr (Username vm)),
        (''Password'', JStr (Password vm)),
        (''Region'', JStr (Region vm)),
        (''TenantName'', JStr (TenantName vm)),
        (''FlavorName'', JStr (FlavorName vm)),
        (''ImageID'', JStr (ImageID vm)),
        (''ImageMetadata'', json_ImageMetadata (ImageMetadata vm)),
        (''ImagePath'', JStr (ImagePath vm)),
        (''Volume'', json_Volume (Volume vm)),
        (''InstanceID'', JStr (InstanceID vm)),
        (''Name'', JStr (Name vm)),
        (''Networks'', (case Networks vm of None \<Rightarrow> JNull | Some ns \<Rightarrow> JArray (map JStr ns))),
        (''FloatingIPPool'', JStr (FloatingIPPool vm)),
        (''FloatingIP'', (case FloatingIP vm of None \<Rightarrow> JNull | Some fip \<Rightarrow> JObject (fip_fields fip))),
        (''SecurityGroup'', JStr (SecurityGroup vm)),
        (''UserData'', (case UserData vm of None \<Rightarrow> JNull | Some bs \<Rightarrow> JString (base64 bs))),
        (''AdminPassword'', JStr (AdminPassword vm)),
        (''Credentials'', json_credsAlias (Credentials vm))]"

text \<open>Assignment to a key of a Go map.\<close>

fun map_assign :: "string \<Rightarrow> json \<Rightarrow> (string \<times> json) list \<Rightarrow> (string \<times> json) list" where
  "map_assign k v [] = [(k, v)]"
| "map_assign k v ((k', v') # m) = (if k' = k then (k, v) # m else (k', v') # map_assign k v m)"

text \<open>
  Lines 251-261: the two type assertions have the one-value form; line 259 reads the
  identifier through the pointer, which panics when the pointer is nil. The result is
  the tree of the document that line 261 writes, in which the identifier is a string
  like the others.
\<close>

definition MarshalJSON ::
  "(FloatingIP_t \<Rightarrow> (string \<times> json) list) \<Rightarrow> VM \<Rightarrow> (json \<times> error option) outcome" where
  "MarshalJSON fip_fields vm =
     (case json_vmAlias fip_fields vm of
        JObject m \<Rightarrow>
          (case map_of m ''FloatingIP'' of
             Some (JObject fip) \<Rightarrow>
               (case FloatingIP vm of
                  None \<Rightarrow> Panic
                | Some f \<Rightarrow>
                    Return
                      (JObject (map_assign ''FloatingIP''
                                  (JObject (map_assign ''id'' (JStr (fip_ID f)) fip)) m),
                       None))
           | _ \<Rightarrow> Panic)
      | _ \<Rightarrow> Panic)"

section \<open>A scripted provider\<close>

text \<open>
  A provider for concrete runs: \<open>fails\<close> names the calls that fail and the error each
  fails with; every other call succeeds with a fixed reply; the server that a status
  query reports is \<open>srv\<close>.
\<close>

definition demo_client :: ServiceClient where
  "demo_client = ServiceClient ''compute''"

definition demo_network_client :: ServiceClient where
  "demo_network_client = ServiceClient ''network''"

definition demo_fip :: FloatingIP_t where
  "demo_fip =
     \<lparr>fip_ID = ''fip-7'', fip_FixedIP = [], fip_InstanceID = [], fip_IP = ''172.24.4.10'',
      fip_Pool = ''public''\<rparr>"

definition demo_server :: "string \<Rightarrow> (string \<times> json) list \<Rightarrow> Server" where
  "demo_server status addresses =
     \<lparr>srv_ID = ''abc-123'', srv_Status = status, srv_Addresses = addresses\<rparr>"

text \<open>
  \<^verbatim>\<open>net.ParseIP\<close> on the two addresses of the runs: an IPv4 address is returned in
  its 16-byte form, and a string that is no address gives nil.
\<close>

definition demo_ParseIP :: "string \<Rightarrow> byte list option" where
  "demo_ParseIP s =
     (if s = ''172.24.4.10'' then Some [0, 0, 0, 0, 0, 0, 0, 0, 0, 0, 255, 255, 172, 24, 4, 10]
      else if s = ''10.0.0.5'' then Some [0, 0, 0, 0, 0, 0, 0, 0, 0, 0, 255, 255, 10, 0, 0, 5]
      else None)"

definition fail_with :: "error option \<Rightarrow> 'a \<Rightarrow> error + 'a" where
  "fail_with f x = (case f of Some err \<Rightarrow> Inl err | None \<Rightarrow> Inr x)"

definition scripted :: "(call \<Rightarrow> error option) \<Rightarrow> Server option \<Rightarrow> env" where
  "scripted fails srv =
     \<lparr>reply_NewComputeClient = (\<lambda>w vm. fail_with (fails NewComputeClient) demo_client),
      reply_NewNetworkClient =
        (\<lambda>w vm. case fails NewNetworkClient of
                  Some err \<Rightarrow> (None, Some err)
                | None \<Rightarrow> (Some demo_network_client, None)),
      reply_FlavorIDFromName =
        (\<lambda>w c name. fail_with (fails (FlavorIDFromName c name)) ''flavor-1''),
      reply_FindImageIDByName =
        (\<lambda>w c name. fail_with (fails (FindImageIDByName c name)) ''image-1''),
      reply_CreateImage =
        (\<lambda>w vm. fail_with (fails (CreateImage (ImageMetadata vm) (ImagePath vm))) ''image-2''),
      reply_ServersCreate =
        (\<lambda>w c opts. fail_with (fails (ServersCreate c opts)) (demo_server ''BUILD'' [])),
      reply_ServersGet =
        (\<lambda>w vm. case fails (ServersGet (InstanceID vm)) of
                  Some err \<Rightarrow> (None, Some err)
                | None \<Rightarrow> (srv, None)),
      reply_WaitUntil = (\<lambda>w vm state. fails (WaitUntil (InstanceID vm) state)),
      reply_WaitUntilSSHReady = (\<lambda>w vm. fails (WaitUntilSSHReady (InstanceID vm))),
      reply_FloatingIPCreate = (\<lambda>w c pool. fail_with (fails (FloatingIPCreate c pool)) demo_fip),
      reply_FloatingIPAssociate = (\<lambda>w c sid ip. fails (FloatingIPAssociate c sid ip)),
      reply_FloatingIPDisassociate = (\<lambda>w c sid ip. fails (FloatingIPDisassociate c sid ip)),
      reply_FloatingIPDelete = (\<lambda>w c fid. fails (FloatingIPDelete c fid)),
      reply_CreateAndAttachVolume =
        (\<lambda>w vm. fail_with (fails (CreateAndAttachVolume (InstanceID vm) (Volume vm)))
                  (''vol-1'', ''/dev/vdb'')),
      reply_DeattachAndDeleteVolume =
        (\<lambda>w vm. fails (DeattachAndDeleteVolume (InstanceID vm) (vol_ID (Volume vm)))),
      reply_DeleteVM = (\<lambda>w c iid. fails (DeleteVM c iid)),
      reply_NetworksGet =
        (\<lambda>w c nid. fail_with (fails (NetworksGet c nid)) \<lparr>net_Name = ''private''\<rparr>),
      reply_Stop = (\<lambda>w c sid. fails (Stop c sid)),
      lvm_VMRunning = ''running'',
      lvm_VMHalted = ''halted'',
      lvm_VMError = ''error'',
      lvm_VMUnknown = ''unknown'',
      lvm_ErrVMInfoFailed = Errorf ''failed to get VM info'',
      net_ParseIP = demo_ParseIP\<rparr>"

definition no_failure :: "call \<Rightarrow> error option" where
  "no_failure c = None"

text \<open>A descriptor as a caller constructs it, and the same one after a Provision.\<close>

definition demo_vm :: VM where
  "demo_vm =
     \<lparr>IdentityEndpoint = ''https://keystone.example:5000/v2.0'',
      Username = ''admin'',
      Password = ''secret'',
      Region = ''RegionOne'',
      TenantName = ''demo'',
      FlavorName = ''m1.small'',
      ImageID = [],
      ImageMetadata =
        \<lparr>im_ContainerFormat = ''bare'', im_DiskFormat = ''qcow2'', im_MinDisk = 0,
         im_MinRAM = 0, im_Name = ''trusty''\<rparr>,
      ImagePath = ''/tmp/trusty.img'',
      Volume = \<lparr>vol_ID = [], vol_Device = [], vol_Name = ''data'', vol_Size = 0, vol_Type = []\<rparr>,
      InstanceID = [],
      Name = ''libretto-vm'',
      Networks = Some [''net-1''],
      FloatingIPPool = ''public'',
      FloatingIP = None,
      SecurityGroup = [],
      UserData = None,
      AdminPassword = [],
      Credentials = \<lparr>SSHUser = ''ubuntu'', SSHPassword = [], SSHPrivateKey = ''key''\<rparr>,
      computeClient = None\<rparr>"

definition provisioned_vm :: VM where
  "provisioned_vm =
     demo_vm\<lparr>ImageID := ''image-1'', InstanceID := ''abc-123'', FloatingIP := Some demo_fip,
             computeClient := Some demo_client\<rparr>"

text \<open>Scripts of failures, and the descriptor and the log after the create request.\<close>

definition fail_wait :: "call \<Rightarrow> error option" where
  "fail_wait c = (case c of WaitUntil iid state \<Rightarrow> Some ErrActionTimeout | _ \<Rightarrow> None)"


definition fail_flavor :: "call \<Rightarrow> error option" where
  "fail_flavor c =
     (case c of FlavorIDFromName cl name \<Rightarrow> Some (Errorf ''Unable to find flavor'') | _ \<Rightarrow> None)"

definition created_vm :: VM where
  "created_vm =
     demo_vm\<lparr>ImageID := ''image-1'', InstanceID := ''abc-123'', computeClient := Some demo_client\<rparr>"

definition created_log :: world where
  "created_log =
     [NewComputeClient,
      FlavorIDFromName demo_client ''m1.small'',
      FindImageIDByName demo_client ''trusty'',
      ServersCreate demo_client
        \<lparr>co_Name = ''libretto-vm'', co_FlavorRef = ''flavor-1'', co_ImageRef = ''image-1'',
         co_Networks = Some [''net-1''], co_SecurityGroups = [''default''], co_UserData = None,
         co_AdminPass = []\<rparr>]"

text \<open>The delete-instance calls of a log.\<close>

fun is_DeleteVM :: "call \<Rightarrow> bool" where
  "is_DeleteVM (DeleteVM c i) = True"
| "is_DeleteVM _ = False"

definition fail_disassociate :: "call \<Rightarrow> error option" where
  "fail_disassociate c =
     (case c of FloatingIPDisassociate cl sid ip \<Rightarrow> Some (Errorf ''ip not associated'') | _ \<Rightarrow> None)"

definition fail_teardown :: "call \<Rightarrow> error option" where
  "fail_teardown c =
     (case c of
        FloatingIPDisassociate cl sid ip \<Rightarrow> Some (Errorf ''ip not associated'')
      | DeleteVM cl iid \<Rightarrow> Some (Errorf ''server is locked'')
      | _ \<Rightarrow> None)"

text \<open>A well-formed address table entry: a list of blocks with a type and an address.\<close>

definition wf_block :: "json \<Rightarrow> bool" where
  "wf_block block =
     (case block of
        JObject addressBlock \<Rightarrow>
          (case (map_of addressBlock ''OS-EXT-IPS:type'', map_of addressBlock ''addr'') of
             (Some (JString ipType), Some (JString ip)) \<Rightarrow> True
           | _ \<Rightarrow> False)
      | _ \<Rightarrow> False)"

definition wf_entry :: "json option \<Rightarrow> bool" where
  "wf_entry entry =
     (case entry of Some (JArray addressSlice) \<Rightarrow> list_all wf_block addressSlice | _ \<Rightarrow> False)"

definition demo_addresses :: "(string \<times> json) list" where
  "demo_addresses =
     [(''private'',
       JArray
         [JObject [(''OS-EXT-IPS:type'', JString ''fixed''), (''addr'', JString ''10.0.0.5''),
                   (''version'', JNumber 4)],
          JObject [(''OS-EXT-IPS:type'', JString ''floating''), (''addr'', JString ''172.24.4.10''),
                   (''version'', JNumber 4)]])]"

definition demo_fip_fields :: "FloatingIP_t \<Rightarrow> (string \<times> json) list" where
  "demo_fip_fields fip =
     (if fip_FixedIP fip = [] then [] else [(''fixed_ip'', JStr (fip_FixedIP fip))])
     @ [(''instance_id'', JStr (fip_InstanceID fip)),
        (''ip'', JStr (fip_IP fip)),
        (''pool'', JStr (fip_Pool fip))]"

definition no_network_client :: env where
  "no_network_client =
     (scripted no_failure (Some (demo_server ''ACTIVE'' demo_addresses)))
       \<lparr>reply_NewNetworkClient := (\<lambda>w vm. (None, None))\<rparr>"

text \<open>
  What holds of the slice throughout the loops of GetIPs, for the sets \<open>F\<close> and \<open>X\<close>
  of the addresses flagged floating and fixed.
\<close>

definition positions_from ::
  "env \<Rightarrow> string set \<Rightarrow> string set \<Rightarrow> byte slice list \<Rightarrow> bool" where
  "positions_from P F X ips \<longleftrightarrow>
     length ips = 2
     \<and> (ips ! PublicIP \<noteq> None \<longrightarrow> ips ! PublicIP \<in> net_ParseIP P ` F)
     \<and> (ips ! PrivateIP \<noteq> None \<longrightarrow> ips ! PrivateIP \<in> net_ParseIP P ` X)"



section \<open>Properties\<close>

subsection \<open>The session handle\<close>

lemma getComputeClient_Inr:
  assumes "getComputeClient P vm w = (Inr client, vm1, w1)"
  shows "vm1 = vm\<lparr>computeClient := Some client\<rparr> \<and> (w1 = w \<or> w1 = w @ [NewComputeClient])"
  using assms by (auto simp: getComputeClient_def split: option.splits sum.splits)


subsection \<open>The calls of the first two stages of Destroy\<close>



subsection \<open>The joined error\<close>

lemma join_from_sublist:
  "sublist (error_string a) (error_string (join_from a es))
   \<and> (\<forall>e \<in> set es. sublist (error_string e) (error_string (join_from a es)))"
proof (induction es arbitrary: a)
  case Nil
  then show ?case by simp
next
  case (Cons x es)
  let ?b = "Errorf (error_string a @ '', '' @ error_string x)"
  from Cons.IH [of ?b] have
    ih1: "sublist (error_string ?b) (error_string (join_from ?b es))"
    and ih2: "\<forall>e \<in> set es. sublist (error_string e) (error_string (join_from ?b es))"
    by simp_all
  have "sublist (error_string a) (error_string ?b)" by simp
  with ih1 have a: "sublist (error_string a) (error_string (join_from ?b es))"
    by (blast intro: sublist_order.order.trans)
  have "sublist (error_string x) (error_string ?b)"
    using sublist_appendI [of "error_string x" "error_string a @ '', ''" "[]"] by simp
  with ih1 have x: "sublist (error_string x) (error_string (join_from ?b es))"
    by (blast intro: sublist_order.order.trans)
  from a x ih2 show ?case by simp
qed

lemma join_errors_None: "join_errors errs = None \<longleftrightarrow> errs = []"
  by (simp add: join_errors_def split: list.splits)

lemma join_errors_sublist:
  "e \<in> set errs \<Longrightarrow>
   \<exists>r. join_errors errs = Some r \<and> sublist (error_string e) (error_string r)"
  using join_from_sublist by (cases errs) (auto simp: join_errors_def)

subsection \<open>The stages of Provision that passed control on\<close>

lemma provision_image_Inr:
  assumes "provision_image P client vm w = Inr (imageID, vm1, w1)"
  shows "vm1 = vm\<lparr>ImageID := imageID\<rparr>
       \<and> (\<exists>calls. w1 = w @ calls \<and> filter is_DeleteVM calls = [])"
  using assms
  by (auto simp: provision_image_def findImageIDByName_def createImage_def
           split: if_splits sum.splits)

lemma Provision_create_Inr:
  assumes "Provision_create P vm w = Inr (client, server, vm1, w1)"
  shows "InstanceID vm1 = srv_ID server \<and> computeClient vm1 = Some client
       \<and> FloatingIP vm1 = FloatingIP vm \<and> Volume vm1 = Volume vm
       \<and> (\<exists>calls. w1 = w @ calls \<and> filter is_DeleteVM calls = [])"
proof -
  from assms obtain vm0 w0 where cl: "getComputeClient P vm w = (Inr client, vm0, w0)"
    by (auto simp: Provision_create_def split: prod.splits sum.splits)
  from assms cl obtain flavorID where
    fl: "reply_FlavorIDFromName P w0 client (FlavorName vm0) = Inr flavorID"
    by (auto simp: Provision_create_def flavors_IDFromName_def split: prod.splits sum.splits)
  from assms cl fl obtain imageID vm3 w3 where
    im: "provision_image P client vm0 (w0 @ [FlavorIDFromName client (FlavorName vm0)])
           = Inr (imageID, vm3, w3)"
    by (auto simp: Provision_create_def flavors_IDFromName_def split: prod.splits sum.splits)
  from assms cl fl im have
    fin: "vm1 = vm3\<lparr>InstanceID := srv_ID server\<rparr>"
         "w1 = w3 @ [ServersCreate client (createOpts vm3 flavorID imageID)]"
    by (auto simp: Provision_create_def flavors_IDFromName_def servers_Create_def
             split: prod.splits sum.splits)
  from getComputeClient_Inr [OF cl] have
    v0: "vm0 = vm\<lparr>computeClient := Some client\<rparr>"
    and w0: "w0 = w \<or> w0 = w @ [NewComputeClient]"
    by simp_all
  from provision_image_Inr [OF im] obtain calls where
    v3: "vm3 = vm0\<lparr>ImageID := imageID\<rparr>"
    and w3: "w3 = (w0 @ [FlavorIDFromName client (FlavorName vm0)]) @ calls"
            "filter is_DeleteVM calls = []"
    by blast
  have "\<exists>calls. w1 = w @ calls \<and> filter is_DeleteVM calls = []"
  proof (rule disjE [OF w0])
    assume "w0 = w"
    then have "w1 = w @ (FlavorIDFromName client (FlavorName vm0) # calls
                 @ [ServersCreate client (createOpts vm3 flavorID imageID)])"
      using fin w3 by simp
    moreover have "filter is_DeleteVM (FlavorIDFromName client (FlavorName vm0) # calls
                 @ [ServersCreate client (createOpts vm3 flavorID imageID)]) = []"
      using w3 by simp
    ultimately show ?thesis by blast
  next
    assume "w0 = w @ [NewComputeClient]"
    then have "w1 = w @ (NewComputeClient # FlavorIDFromName client (FlavorName vm0) # calls
                 @ [ServersCreate client (createOpts vm3 flavorID imageID)])"
      using fin w3 by simp
    moreover have "filter is_DeleteVM
                     (NewComputeClient # FlavorIDFromName client (FlavorName vm0) # calls
                      @ [ServersCreate client (createOpts vm3 flavorID imageID)]) = []"
      using w3 by simp
    ultimately show ?thesis by blast
  qed
  then show ?thesis using fin v0 v3 by simp
qed



text \<open>The scripted provider creates the instance when none of the four calls before fails.\<close>

lemma created_run:
  "fails NewComputeClient = None \<Longrightarrow>
   fails (FlavorIDFromName demo_client ''m1.small'') = None \<Longrightarrow>
   fails (FindImageIDByName demo_client ''trusty'') = None \<Longrightarrow>
   (\<And>opts. fails (ServersCreate demo_client opts) = None) \<Longrightarrow>
   Provision_create (scripted fails srv) demo_vm [] =
     Inr (demo_client, demo_server ''BUILD'' [], created_vm, created_log)"
  by (simp add: Provision_create_def provision_image_def createOpts_def listOfNetworks_def
        elems_def getComputeClient_def flavors_IDFromName_def findImageIDByName_def
        servers_Create_def scripted_def fail_with_def demo_vm_def demo_server_def
        created_vm_def created_log_def)

section \<open>Provision: the wait for the running state fails\<close>

text \<open>
  C1. A run of Provision in which the instance is created (the stage of lines 273-339
  passes control on, the identifier of the server recorded on the descriptor) and the
  wait for the running state then returns an error \<open>cause\<close>, a timeout or any other.
  Provision runs Destroy on the descriptor and the world that the wait left, and what
  Destroy leaves is what Provision leaves. When Destroy returns nil, Provision returns
  \<open>cause\<close> itself; when Destroy returns an error, Provision returns the message of
  \<open>cause\<close>, a space, and the message of that error. In both cases the message
  returned begins with the message of \<open>cause\<close>.
\<close>

theorem Provision_wait_failure_tears_down:
  assumes created: "Provision_create P vm w = Inr (client, server, vm1, w1)"
      and wait: "waitUntil P vm1 (lvm_VMRunning P) w1 = (Some cause, w2)"
  shows "\<exists>errDestroy vm' w'.
           Destroy P vm1 w2 = (errDestroy, vm', w')
         \<and> Provision P vm w =
             (Some (case errDestroy of None \<Rightarrow> cause
                    | Some d \<Rightarrow> Errorf (error_string cause @ '' '' @ error_string d)), vm', w')
         \<and> InstanceID vm1 = srv_ID server
         \<and> (\<exists>r. fst (Provision P vm w) = Some r \<and> prefix (error_string cause) (error_string r))"
proof -
  obtain errDestroy vm' w' where d: "Destroy P vm1 w2 = (errDestroy, vm', w')"
    by (cases "Destroy P vm1 w2") auto
  have p: "Provision P vm w = cleanup P cause vm1 w2"
    using created wait
    by (simp add: Provision_def Provision_allocate_def Provision_running_def)
  have c: "cleanup P cause vm1 w2 =
             (Some (case errDestroy of None \<Rightarrow> cause
                    | Some d \<Rightarrow> Errorf (error_string cause @ '' '' @ error_string d)), vm', w')"
    using d by (simp add: cleanup_def split: option.splits)
  have i: "InstanceID vm1 = srv_ID server"
    using Provision_create_Inr [OF created] by simp
  have "prefix (error_string cause)
          (error_string (case errDestroy of None \<Rightarrow> cause
                    | Some d \<Rightarrow> Errorf (error_string cause @ '' '' @ error_string d)))"
    by (cases errDestroy) simp_all
  then show ?thesis using d p c i by simp
qed

theorem Provision_wait_failure_tears_down_witness:
  "Provision_create (scripted fail_wait None) demo_vm [] =
     Inr (demo_client, demo_server ''BUILD'' [], created_vm, created_log)
   \<and> waitUntil (scripted fail_wait None) created_vm (lvm_VMRunning (scripted fail_wait None))
       created_log = (Some ErrActionTimeout, created_log @ [WaitUntil ''abc-123'' ''running''])
   \<and> Provision (scripted fail_wait None) demo_vm [] =
       (Some ErrActionTimeout, created_vm\<lparr>computeClient := None\<rparr>,
        created_log @ [WaitUntil ''abc-123'' ''running'', DeleteVM demo_client ''abc-123''])"
proof -
  have h1: "Provision_create (scripted fail_wait None) demo_vm [] =
     Inr (demo_client, demo_server ''BUILD'' [], created_vm, created_log)"
    by (rule created_run) (simp_all add: fail_wait_def)
  have h2: "waitUntil (scripted fail_wait None) created_vm (lvm_VMRunning (scripted fail_wait None))
       created_log = (Some ErrActionTimeout, created_log @ [WaitUntil ''abc-123'' ''running''])"
    by (simp add: waitUntil_def scripted_def fail_wait_def created_vm_def)
  have d: "Destroy (scripted fail_wait None) created_vm
             (created_log @ [WaitUntil ''abc-123'' ''running'']) =
           (None, created_vm\<lparr>computeClient := None\<rparr>,
            created_log @ [WaitUntil ''abc-123'' ''running'', DeleteVM demo_client ''abc-123''])"
    by (simp add: Destroy_def destroy_floating_ip_def destroy_volume_def destroy_instance_def
          join_errors_def deleteVM_def getComputeClient_def scripted_def fail_wait_def
          created_vm_def demo_vm_def)
  from Provision_wait_failure_tears_down [OF h1 h2] d h1 h2 show ?thesis
    by auto
qed

section \<open>Provision: the association of the floating IP fails\<close>




section \<open>Destroy: the stages of the teardown\<close>

text \<open>
  C3, as amended. A descriptor with an instance identifier and a floating-IP record
  \<open>fip\<close>, for which Destroy obtains the compute client. Destroy asks the provider to
  disassociate the floating IP (by its IP string) and calls the reply \<open>dis\<close>. Only if
  \<open>dis\<close> is nil does it ask for the floating IP to be deleted (by its identifier),
  with reply \<open>del\<close>. Whatever these replies were, it then runs the volume stage when
  the descriptor has a volume identifier, with reply \<open>vol\<close>, and whatever that reply
  was, it asks for the instance to be deleted, with reply \<open>ins\<close>. The error returned
  joins, in this order, the failure of the floating-IP stage (the one of the disassociation,
  or else the one of the deletion), the failure of the volume stage and the failure of the
  deletion of the instance. The joined error is nil exactly when nothing failed, and the
  message of every failure joined is a part of its message.
\<close>

theorem Destroy_attempts_every_stage:
  assumes iid: "InstanceID vm \<noteq> []"
      and fip: "FloatingIP vm = Some fip"
      and client: "getComputeClient P vm w = (Inr client, vm1, w1)"
      and dis: "dis = reply_FloatingIPDisassociate P w1 client (InstanceID vm) (fip_IP fip)"
      and w2: "w2 = w1 @ [FloatingIPDisassociate client (InstanceID vm) (fip_IP fip)]"
      and del: "del = reply_FloatingIPDelete P w2 client (fip_ID fip)"
      and w3: "w3 = (if dis = None then w2 @ [FloatingIPDelete client (fip_ID fip)] else w2)"
      and vol: "vol = reply_DeattachAndDeleteVolume P w3 vm1"
      and w4: "w4 = (if vol_ID (Volume vm) \<noteq> []
                     then w3 @ [DeattachAndDeleteVolume (InstanceID vm) (vol_ID (Volume vm))]
                     else w3)"
      and ins: "ins = reply_DeleteVM P w4 client (InstanceID vm)"
  shows "Destroy P vm w =
           (join_errors
              ((case dis of
                  Some e \<Rightarrow>
                    [Errorf (''unable to disassociate floating ip from instance: '' @ error_string e)]
                | None \<Rightarrow>
                    (case del of
                       Some e \<Rightarrow> [Errorf (''unable to delete floating ip: '' @ error_string e)]
                     | None \<Rightarrow> []))
               @ (if vol_ID (Volume vm) \<noteq> [] then (case vol of Some e \<Rightarrow> [e] | None \<Rightarrow> []) else [])
               @ (case ins of Some e \<Rightarrow> [e] | None \<Rightarrow> [])),
            vm\<lparr>computeClient := None\<rparr>,
            w4 @ [DeleteVM client (InstanceID vm)])
       \<and> (\<forall>errs. join_errors errs = None \<longleftrightarrow> errs = [])
       \<and> (\<forall>errs. \<forall>e \<in> set errs.
            \<exists>r. join_errors errs = Some r \<and> sublist (error_string e) (error_string r))"
proof -
  from getComputeClient_Inr [OF client] have v: "vm1 = vm\<lparr>computeClient := Some client\<rparr>"
    by simp
  have "Destroy P vm w =
           (join_errors
              ((case dis of
                  Some e \<Rightarrow>
                    [Errorf (''unable to disassociate floating ip from instance: '' @ error_string e)]
                | None \<Rightarrow>
                    (case del of
                       Some e \<Rightarrow> [Errorf (''unable to delete floating ip: '' @ error_string e)]
                     | None \<Rightarrow> []))
               @ (if vol_ID (Volume vm) \<noteq> [] then (case vol of Some e \<Rightarrow> [e] | None \<Rightarrow> []) else [])
               @ (case ins of Some e \<Rightarrow> [e] | None \<Rightarrow> [])),
            vm\<lparr>computeClient := None\<rparr>,
            w4 @ [DeleteVM client (InstanceID vm)])"
    using iid fip client
    unfolding dis w2 del w3 vol w4 ins v
    by (simp add: Destroy_def destroy_floating_ip_def destroy_volume_def destroy_instance_def
          floatingips_DisassociateInstance_def floatingips_Delete_def
          deattachAndDeleteVolume_def deleteVM_def split: option.splits)
  then show ?thesis
    using join_errors_None join_errors_sublist by blast
qed

theorem Destroy_attempts_every_stage_witness:
  "InstanceID provisioned_vm \<noteq> []
   \<and> FloatingIP provisioned_vm = Some demo_fip
   \<and> getComputeClient (scripted fail_teardown None) provisioned_vm []
       = (Inr demo_client, provisioned_vm, [])
   \<and> reply_FloatingIPDisassociate (scripted fail_teardown None) [] demo_client
       (InstanceID provisioned_vm) (fip_IP demo_fip) = Some (Errorf ''ip not associated'')
   \<and> reply_DeleteVM (scripted fail_teardown None)
       [FloatingIPDisassociate demo_client ''abc-123'' ''172.24.4.10''] demo_client
       (InstanceID provisioned_vm) = Some (Errorf ''server is locked'')
   \<and> Destroy (scripted fail_teardown None) provisioned_vm [] =
       (Some (Errorf (''unable to disassociate floating ip from instance: ip not associated''
                      @ '', '' @ ''server is locked'')),
        provisioned_vm\<lparr>computeClient := None\<rparr>,
        [FloatingIPDisassociate demo_client ''abc-123'' ''172.24.4.10'',
         DeleteVM demo_client ''abc-123''])"
proof -
  let ?P = "scripted fail_teardown None"
  let ?w2 = "[FloatingIPDisassociate demo_client ''abc-123'' ''172.24.4.10'']"
  have h1: "InstanceID provisioned_vm \<noteq> []"
    by (simp add: provisioned_vm_def)
  have h2: "FloatingIP provisioned_vm = Some demo_fip"
    by (simp add: provisioned_vm_def)
  have h3: "getComputeClient ?P provisioned_vm [] = (Inr demo_client, provisioned_vm, [])"
    by (simp add: getComputeClient_def provisioned_vm_def)
  have h4: "Some (Errorf ''ip not associated'') =
              reply_FloatingIPDisassociate ?P [] demo_client (InstanceID provisioned_vm)
                (fip_IP demo_fip)"
    by (simp add: scripted_def fail_teardown_def)
  have h5: "?w2 = [] @ [FloatingIPDisassociate demo_client (InstanceID provisioned_vm)
                          (fip_IP demo_fip)]"
    by (simp add: provisioned_vm_def demo_fip_def)
  have h6: "None = reply_FloatingIPDelete ?P ?w2 demo_client (fip_ID demo_fip)"
    by (simp add: scripted_def fail_teardown_def)
  have h7: "?w2 = (if Some (Errorf ''ip not associated'') = None
                   then ?w2 @ [FloatingIPDelete demo_client (fip_ID demo_fip)] else ?w2)"
    by simp
  have h8: "None = reply_DeattachAndDeleteVolume ?P ?w2 provisioned_vm"
    by (simp add: scripted_def fail_teardown_def)
  have h9: "?w2 = (if vol_ID (Volume provisioned_vm) \<noteq> []
                   then ?w2 @ [DeattachAndDeleteVolume (InstanceID provisioned_vm)
                                 (vol_ID (Volume provisioned_vm))]
                   else ?w2)"
    by (simp add: provisioned_vm_def demo_vm_def)
  have h10: "Some (Errorf ''server is locked'') =
               reply_DeleteVM ?P ?w2 demo_client (InstanceID provisioned_vm)"
    by (simp add: scripted_def fail_teardown_def)
  from Destroy_attempts_every_stage [OF h1 h2 h3 h4 h5 h6 h7 h8 h9 h10]
  have "Destroy ?P provisioned_vm [] =
       (Some (Errorf (''unable to disassociate floating ip from instance: ip not associated''
                      @ '', '' @ ''server is locked'')),
        provisioned_vm\<lparr>computeClient := None\<rparr>,
        [FloatingIPDisassociate demo_client ''abc-123'' ''172.24.4.10'',
         DeleteVM demo_client ''abc-123''])"
    by (simp add: join_errors_def provisioned_vm_def demo_vm_def)
  with h1 h2 h3 h4 [symmetric] h10 [symmetric] show ?thesis by simp
qed

text \<open>
  C3 as stated says that the floating IP is deleted even if the disassociation failed. In
  the run below the disassociation fails: no request to delete the floating IP is made,
  and one failure of the floating-IP stage is reported, not two.
\<close>

theorem Destroy_floating_ip_delete_skipped_counterexample:
  "InstanceID provisioned_vm \<noteq> []
   \<and> FloatingIP provisioned_vm = Some demo_fip
   \<and> Destroy (scripted fail_disassociate None) provisioned_vm [] =
       (Some (Errorf ''unable to disassociate floating ip from instance: ip not associated''),
        provisioned_vm\<lparr>computeClient := None\<rparr>,
        [FloatingIPDisassociate demo_client ''abc-123'' ''172.24.4.10'',
         DeleteVM demo_client ''abc-123''])
   \<and> FloatingIPDelete demo_client (fip_ID demo_fip)
       \<notin> set (snd (snd (Destroy (scripted fail_disassociate None) provisioned_vm [])))"
  by (simp add: Destroy_def destroy_floating_ip_def destroy_volume_def destroy_instance_def
        join_errors_def floatingips_DisassociateInstance_def deleteVM_def getComputeClient_def
        scripted_def fail_disassociate_def provisioned_vm_def demo_vm_def demo_fip_def)

section \<open>Provision: the flavor is not found\<close>

text \<open>
  C4. A run of Provision in which the compute client is obtained and the lookup of the
  flavor name returns an error. Provision returns \<open>ErrNoFlavor\<close>, whatever the error of
  the lookup was. The lookup is the last call made: the calls of the run are the request
  for the client, when the descriptor held none, and the lookup, so no create request for
  an instance is among them. The descriptor is changed in its session handle only.
\<close>

theorem Provision_flavor_not_found:
  assumes client: "getComputeClient P vm w = (Inr client, vm1, w1)"
      and flavor: "flavors_IDFromName P client (FlavorName vm1) w1 = (Inl err, w2)"
  shows "Provision P vm w = (Some ErrNoFlavor, vm\<lparr>computeClient := Some client\<rparr>, w2)
       \<and> (w2 = w @ [FlavorIDFromName client (FlavorName vm)]
          \<or> w2 = w @ [NewComputeClient, FlavorIDFromName client (FlavorName vm)])
       \<and> (\<forall>c opts. ServersCreate c opts \<notin> set (drop (length w) w2))"
proof -
  from getComputeClient_Inr [OF client] have
    v: "vm1 = vm\<lparr>computeClient := Some client\<rparr>" and w1: "w1 = w \<or> w1 = w @ [NewComputeClient]"
    by simp_all
  have w2: "w2 = w1 @ [FlavorIDFromName client (FlavorName vm)]"
    using flavor v by (simp add: flavors_IDFromName_def)
  have "Provision P vm w = (Some ErrNoFlavor, vm1, w2)"
    using client flavor
    by (simp add: Provision_def Provision_allocate_def Provision_running_def Provision_create_def)
  moreover have "w2 = w @ [FlavorIDFromName client (FlavorName vm)]
          \<or> w2 = w @ [NewComputeClient, FlavorIDFromName client (FlavorName vm)]"
    using w1 w2 by auto
  moreover from this have "\<forall>c opts. ServersCreate c opts \<notin> set (drop (length w) w2)"
    by auto
  ultimately show ?thesis using v by simp
qed

theorem Provision_flavor_not_found_witness:
  "getComputeClient (scripted fail_flavor None) demo_vm [] =
     (Inr demo_client, demo_vm\<lparr>computeClient := Some demo_client\<rparr>, [NewComputeClient])
   \<and> flavors_IDFromName (scripted fail_flavor None) demo_client
       (FlavorName (demo_vm\<lparr>computeClient := Some demo_client\<rparr>)) [NewComputeClient] =
     (Inl (Errorf ''Unable to find flavor''),
      [NewComputeClient, FlavorIDFromName demo_client ''m1.small''])
   \<and> Provision (scripted fail_flavor None) demo_vm [] =
       (Some ErrNoFlavor, demo_vm\<lparr>computeClient := Some demo_client\<rparr>,
        [NewComputeClient, FlavorIDFromName demo_client ''m1.small''])"
proof -
  have h1: "getComputeClient (scripted fail_flavor None) demo_vm [] =
     (Inr demo_client, demo_vm\<lparr>computeClient := Some demo_client\<rparr>, [NewComputeClient])"
    by (simp add: getComputeClient_def scripted_def fail_with_def fail_flavor_def demo_vm_def)
  have h2: "flavors_IDFromName (scripted fail_flavor None) demo_client
       (FlavorName (demo_vm\<lparr>computeClient := Some demo_client\<rparr>)) [NewComputeClient] =
     (Inl (Errorf ''Unable to find flavor''),
      [NewComputeClient, FlavorIDFromName demo_client ''m1.small''])"
    by (simp add: flavors_IDFromName_def scripted_def fail_with_def fail_flavor_def demo_vm_def)
  from Provision_flavor_not_found [OF h1 h2] h1 h2 show ?thesis
    by simp
qed

section \<open>Destroy: what is left of the descriptor\<close>

text \<open>
  C5, as amended. A descriptor with an instance identifier, for which Destroy obtains
  the compute client. After Destroy, whether it returns nil or an error of its stages, the
  session handle of the descriptor is nil; the instance identifier and the floating-IP
  record of the descriptor are the ones it had before.
\<close>

theorem Destroy_clears_session_handle:
  assumes iid: "InstanceID vm \<noteq> []"
      and client: "getComputeClient P vm w = (Inr client, vm1, w1)"
      and destroy: "Destroy P vm w = (r, vm', w')"
  shows "computeClient vm' = None \<and> InstanceID vm' = InstanceID vm
       \<and> FloatingIP vm' = FloatingIP vm"
proof -
  from getComputeClient_Inr [OF client] have v: "vm1 = vm\<lparr>computeClient := Some client\<rparr>"
    by simp
  have "vm' = vm1\<lparr>computeClient := None\<rparr>"
    using iid client destroy by (auto simp: Destroy_def split: prod.splits)
  with v show ?thesis by simp
qed

theorem Destroy_clears_session_handle_witness:
  "InstanceID provisioned_vm \<noteq> []
   \<and> getComputeClient (scripted no_failure None) provisioned_vm []
       = (Inr demo_client, provisioned_vm, [])
   \<and> Destroy (scripted no_failure None) provisioned_vm [] =
       (None, provisioned_vm\<lparr>computeClient := None\<rparr>,
        [FloatingIPDisassociate demo_client ''abc-123'' ''172.24.4.10'',
         FloatingIPDelete demo_client ''fip-7'', DeleteVM demo_client ''abc-123''])
   \<and> computeClient (provisioned_vm\<lparr>computeClient := None\<rparr>) = None
   \<and> InstanceID (provisioned_vm\<lparr>computeClient := None\<rparr>) = InstanceID provisioned_vm
   \<and> FloatingIP (provisioned_vm\<lparr>computeClient := None\<rparr>) = FloatingIP provisioned_vm"
proof -
  let ?P = "scripted no_failure None"
  have h1: "InstanceID provisioned_vm \<noteq> []"
    by (simp add: provisioned_vm_def)
  have h2: "getComputeClient ?P provisioned_vm [] = (Inr demo_client, provisioned_vm, [])"
    by (simp add: getComputeClient_def provisioned_vm_def)
  have h3: "Destroy ?P provisioned_vm [] =
       (None, provisioned_vm\<lparr>computeClient := None\<rparr>,
        [FloatingIPDisassociate demo_client ''abc-123'' ''172.24.4.10'',
         FloatingIPDelete demo_client ''fip-7'', DeleteVM demo_client ''abc-123''])"
    by (simp add: Destroy_def destroy_floating_ip_def destroy_volume_def destroy_instance_def
          join_errors_def floatingips_DisassociateInstance_def floatingips_Delete_def
          deleteVM_def getComputeClient_def scripted_def no_failure_def provisioned_vm_def
          demo_vm_def demo_fip_def)
  from Destroy_clears_session_handle [OF h1 h2 h3] h1 h2 h3 show ?thesis
    by blast
qed

text \<open>
  C5 as stated says that Destroy removes the instance identifier and the floating-IP
  record from the descriptor. In the run below every stage succeeds, and the descriptor
  still holds both.
\<close>

theorem Destroy_keeps_acquired_state_counterexample:
  "InstanceID provisioned_vm \<noteq> []
   \<and> fst (Destroy (scripted no_failure None) provisioned_vm []) = None
   \<and> InstanceID (fst (snd (Destroy (scripted no_failure None) provisioned_vm []))) = ''abc-123''
   \<and> FloatingIP (fst (snd (Destroy (scripted no_failure None) provisioned_vm []))) = Some demo_fip"
  by (simp add: Destroy_def destroy_floating_ip_def destroy_volume_def destroy_instance_def
        join_errors_def floatingips_DisassociateInstance_def floatingips_Delete_def
        deleteVM_def getComputeClient_def scripted_def no_failure_def provisioned_vm_def
        demo_vm_def demo_fip_def)

section \<open>Destroy without an instance identifier\<close>

text \<open>
  C6. A descriptor whose instance identifier is empty: Destroy returns the error
  \<open>ErrNoInstanceID\<close>, makes no call to the provider (the log is the one it was given)
  and leaves the descriptor as it was; a second Destroy on what the first one left
  returns the same error, the same descriptor and the same log. Destroy is a total
  function returning a value: there is no panic on this path.
\<close>

theorem Destroy_missing_instance_id:
  assumes "InstanceID vm = []"
  shows "Destroy P vm w = (Some ErrNoInstanceID, vm, w)
       \<and> (case Destroy P vm w of (err1, vm1, w1) \<Rightarrow>
            Destroy P vm1 w1 = (Some ErrNoInstanceID, vm, w))"
  using assms by (simp add: Destroy_def)

theorem Destroy_missing_instance_id_witness:
  "InstanceID demo_vm = []
   \<and> Destroy (scripted no_failure None) demo_vm [] = (Some ErrNoInstanceID, demo_vm, [])
   \<and> (case Destroy (scripted no_failure None) demo_vm [] of (err1, vm1, w1) \<Rightarrow>
        Destroy (scripted no_failure None) vm1 w1 = (Some ErrNoInstanceID, demo_vm, []))"
  using Destroy_missing_instance_id [of demo_vm "scripted no_failure None" "[]"]
  by (simp add: demo_vm_def)

section \<open>Halt on a machine that is not running\<close>

text \<open>
  C7, as amended. A descriptor with an instance identifier, for which Halt obtains the
  compute client and GetState reports, without error, a state other than running. Halt
  returns an error. No stop request is among the calls of the run: these are the request
  for the client, when the descriptor held none, and the status query by which GetState
  learns the state, which is the last call made.
\<close>

theorem Halt_not_running:
  assumes iid: "InstanceID vm \<noteq> []"
      and client: "getComputeClient P vm w = (Inr client, vm1, w1)"
      and state: "GetState P vm1 w1 = ((state, None), w2)"
      and halted: "state \<noteq> lvm_VMRunning P"
  shows "Halt P vm w =
           (Some (Errorf ''the VM is not active, so cannot be halted''),
            vm\<lparr>computeClient := Some client\<rparr>, w2)
       \<and> (w2 = w @ [ServersGet (InstanceID vm)]
          \<or> w2 = w @ [NewComputeClient, ServersGet (InstanceID vm)])
       \<and> (\<forall>c sid. Stop c sid \<notin> set (drop (length w) w2))"
proof -
  from getComputeClient_Inr [OF client] have
    v: "vm1 = vm\<lparr>computeClient := Some client\<rparr>" and w1: "w1 = w \<or> w1 = w @ [NewComputeClient]"
    by simp_all
  have w2: "w2 = w1 @ [ServersGet (InstanceID vm)]"
    using state iid v
    by (auto simp: GetState_def getServer_def split: option.splits if_splits prod.splits)
  have "Halt P vm w = (Some (Errorf ''the VM is not active, so cannot be halted''), vm1, w2)"
    using iid client state halted by (simp add: Halt_def)
  moreover have "w2 = w @ [ServersGet (InstanceID vm)]
          \<or> w2 = w @ [NewComputeClient, ServersGet (InstanceID vm)]"
    using w1 w2 by auto
  moreover from this have "\<forall>c sid. Stop c sid \<notin> set (drop (length w) w2)"
    by auto
  ultimately show ?thesis using v by simp
qed

theorem Halt_not_running_witness:
  "InstanceID provisioned_vm \<noteq> []
   \<and> getComputeClient (scripted no_failure (Some (demo_server ''SHUTOFF'' demo_addresses)))
       provisioned_vm [] = (Inr demo_client, provisioned_vm, [])
   \<and> GetState (scripted no_failure (Some (demo_server ''SHUTOFF'' demo_addresses)))
       provisioned_vm [] = ((''halted'', None), [ServersGet ''abc-123''])
   \<and> ''halted'' \<noteq> lvm_VMRunning (scripted no_failure (Some (demo_server ''SHUTOFF'' demo_addresses)))
   \<and> Halt (scripted no_failure (Some (demo_server ''SHUTOFF'' demo_addresses)))
       provisioned_vm [] =
       (Some (Errorf ''the VM is not active, so cannot be halted''),
        provisioned_vm, [ServersGet ''abc-123''])"
proof -
  let ?P = "scripted no_failure (Some (demo_server ''SHUTOFF'' demo_addresses))"
  have h1: "InstanceID provisioned_vm \<noteq> []"
    by (simp add: provisioned_vm_def)
  have h2: "getComputeClient ?P provisioned_vm [] = (Inr demo_client, provisioned_vm, [])"
    by (simp add: getComputeClient_def provisioned_vm_def)
  have h3: "GetState ?P provisioned_vm [] = ((''halted'', None), [ServersGet ''abc-123''])"
    by (simp add: GetState_def getServer_def scripted_def no_failure_def demo_server_def
          provisioned_vm_def)
  have h4: "''halted'' \<noteq> lvm_VMRunning ?P"
    by (simp add: scripted_def)
  have e: "provisioned_vm\<lparr>computeClient := Some demo_client\<rparr> = provisioned_vm"
    by (simp add: provisioned_vm_def)
  from Halt_not_running [OF h1 h2 h3 h4] h1 h2 h3 h4 e show ?thesis
    by simp
qed

text \<open>
  C7 as stated says that no call at all is made to the provider when the check of the
  state fails. The check is itself a query to the provider: in the run below, on a halted
  machine, the log of calls that Halt leaves holds the status query.
\<close>

theorem Halt_queries_state_counterexample:
  "InstanceID provisioned_vm \<noteq> []
   \<and> fst (GetState (scripted no_failure (Some (demo_server ''SHUTOFF'' demo_addresses)))
            provisioned_vm []) = (''halted'', None)
   \<and> fst (Halt (scripted no_failure (Some (demo_server ''SHUTOFF'' demo_addresses)))
            provisioned_vm []) = Some (Errorf ''the VM is not active, so cannot be halted'')
   \<and> snd (snd (Halt (scripted no_failure (Some (demo_server ''SHUTOFF'' demo_addresses)))
                 provisioned_vm [])) = [ServersGet ''abc-123'']
   \<and> snd (snd (Halt (scripted no_failure (Some (demo_server ''SHUTOFF'' demo_addresses)))
                 provisioned_vm [])) \<noteq> []"
  by (simp add: Halt_def GetState_def getServer_def getComputeClient_def scripted_def
        no_failure_def demo_server_def provisioned_vm_def)

section \<open>GetIPs: the two positions\<close>

text \<open>The two positions of the slice are filled from the flagged addresses only.\<close>

lemma address_loop_positions:
  assumes "list_all wf_block addressSlice"
      and "\<forall>b \<in> set addressSlice. set (block_addrs ''floating'' b) \<subseteq> F
                                  \<and> set (block_addrs ''fixed'' b) \<subseteq> X"
      and "positions_from P F X ips"
  shows "\<exists>ips'. address_loop P addressSlice ips = Return ips' \<and> positions_from P F X ips'"
  using assms
proof (induction addressSlice arbitrary: ips)
  case Nil
  then show ?case by simp
next
  case (Cons b rest)
  from Cons.prems(1) obtain m ipType ip where
    b: "b = JObject m" "map_of m ''OS-EXT-IPS:type'' = Some (JString ipType)"
       "map_of m ''addr'' = Some (JString ip)"
    by (auto simp: wf_block_def split: json.splits option.splits)
  let ?ips1 = "if ipType = ''floating'' then ips[PublicIP := net_ParseIP P ip] else ips"
  let ?ips2 = "if ipType = ''fixed'' then ?ips1[PrivateIP := net_ParseIP P ip] else ?ips1"
  have step: "address_loop P (b # rest) ips = address_loop P rest ?ips2"
    using b by (simp add: Let_def)
  have fl: "ipType = ''floating'' \<Longrightarrow> ip \<in> F"
    using Cons.prems(2) b by (auto simp: block_addrs_def)
  have fx: "ipType = ''fixed'' \<Longrightarrow> ip \<in> X"
    using Cons.prems(2) b by (auto simp: block_addrs_def)
  have "positions_from P F X ?ips2"
    using Cons.prems(3) fl fx
    by (auto simp: positions_from_def PublicIP_def PrivateIP_def)
  moreover have "list_all wf_block rest" using Cons.prems(1) by simp
  moreover have "\<forall>b \<in> set rest. set (block_addrs ''floating'' b) \<subseteq> F
                                  \<and> set (block_addrs ''fixed'' b) \<subseteq> X"
    using Cons.prems(2) by simp
  ultimately obtain ips' where
    "address_loop P rest ?ips2 = Return ips'" "positions_from P F X ips'"
    using Cons.IH by blast
  with step show ?case by simp
qed

lemma entry_blocks_flagged:
  assumes "map_of (srv_Addresses server) name = Some (JArray addressSlice)"
      and "b \<in> set addressSlice"
  shows "set (block_addrs flag b) \<subseteq> set (flagged_addrs flag server)"
proof -
  from assms(1) have "(name, JArray addressSlice) \<in> set (srv_Addresses server)"
    by (rule map_of_SomeD)
  then have "set (entry_addrs flag (JArray addressSlice)) \<subseteq> set (flagged_addrs flag server)"
    by (force simp: flagged_addrs_def)
  moreover have "set (block_addrs flag b) \<subseteq> set (entry_addrs flag (JArray addressSlice))"
    using assms(2) by (auto simp: entry_addrs_def)
  ultimately show ?thesis by blast
qed

lemma networks_loop_positions:
  assumes "\<forall>w. \<forall>nid \<in> set nids. \<exists>network.
             reply_NetworksGet P w client nid = Inr network
             \<and> wf_entry (map_of (srv_Addresses server) (net_Name network))"
      and "positions_from P (set (flagged_addrs ''floating'' server))
             (set (flagged_addrs ''fixed'' server)) ips"
  shows "\<exists>ips' w'. networks_loop P client server nids ips w = (Return (Some ips', None), w')
           \<and> positions_from P (set (flagged_addrs ''floating'' server))
               (set (flagged_addrs ''fixed'' server)) ips'"
  using assms
proof (induction nids arbitrary: ips w)
  case Nil
  then show ?case by simp
next
  case (Cons nid rest)
  let ?F = "set (flagged_addrs ''floating'' server)"
  let ?X = "set (flagged_addrs ''fixed'' server)"
  from Cons.prems(1) obtain network where
    n: "reply_NetworksGet P w client nid = Inr network"
       "wf_entry (map_of (srv_Addresses server) (net_Name network))"
    by auto
  from n(2) obtain addressSlice where
    e: "map_of (srv_Addresses server) (net_Name network) = Some (JArray addressSlice)"
       "list_all wf_block addressSlice"
    by (auto simp: wf_entry_def split: option.splits json.splits)
  have "\<forall>b \<in> set addressSlice. set (block_addrs ''floating'' b) \<subseteq> ?F
                                  \<and> set (block_addrs ''fixed'' b) \<subseteq> ?X"
    using entry_blocks_flagged [OF e(1)] by blast
  from address_loop_positions [OF e(2) this Cons.prems(2)] obtain ips1 where
    a: "address_loop P addressSlice ips = Return ips1" "positions_from P ?F ?X ips1"
    by blast
  have step: "networks_loop P client server (nid # rest) ips w =
              networks_loop P client server rest ips1 (w @ [NetworksGet client nid])"
    using n(1) e(1) a(1) by (simp add: networks_Get_def)
  have "\<forall>w. \<forall>nid \<in> set rest. \<exists>network.
             reply_NetworksGet P w client nid = Inr network
             \<and> wf_entry (map_of (srv_Addresses server) (net_Name network))"
    using Cons.prems(1) by simp
  from Cons.IH [OF this a(2)] step show ?case by simp
qed

text \<open>
  Where the lookups succeed and the address table of the server holds, under the name of
  each network looked up, a list of blocks that each have a string
  \<^verbatim>\<open>OS-EXT-IPS:type\<close> and a string \<^verbatim>\<open>addr\<close>, GetIPs returns a slice of exactly
  two positions and no error. Position 0, when it is not absent, is the parse of an
  address that the table flags floating; position 1, when it is not absent, is the parse
  of an address that the table flags fixed. A position whose flag no address of the table
  carries is absent.
\<close>

lemma GetIPs_positions_well_formed:
  assumes server: "getServer P vm w = ((Some server, None), w1)"
      and netclient: "getNetworkClient P vm w1 = ((Some client, None), w2)"
      and lookups: "\<forall>w. \<forall>nid \<in> set (elems (Networks vm)). \<exists>network.
                      reply_NetworksGet P w client nid = Inr network
                      \<and> wf_entry (map_of (srv_Addresses server) (net_Name network))"
  shows "\<exists>ips w'. GetIPs P vm w = (Return (Some ips, None), w')
       \<and> length ips = 2
       \<and> (ips ! PublicIP \<noteq> None \<longrightarrow>
            ips ! PublicIP \<in> net_ParseIP P ` set (flagged_addrs ''floating'' server))
       \<and> (ips ! PrivateIP \<noteq> None \<longrightarrow>
            ips ! PrivateIP \<in> net_ParseIP P ` set (flagged_addrs ''fixed'' server))
       \<and> (flagged_addrs ''floating'' server = [] \<longrightarrow> ips ! PublicIP = None)
       \<and> (flagged_addrs ''fixed'' server = [] \<longrightarrow> ips ! PrivateIP = None)"
proof -
  have "positions_from P (set (flagged_addrs ''floating'' server))
          (set (flagged_addrs ''fixed'' server)) [None, None]"
    by (simp add: positions_from_def PublicIP_def PrivateIP_def)
  from networks_loop_positions [OF lookups this, of w2] obtain ips w' where
    l: "networks_loop P client server (elems (Networks vm)) [None, None] w2
          = (Return (Some ips, None), w')"
    and p: "positions_from P (set (flagged_addrs ''floating'' server))
          (set (flagged_addrs ''fixed'' server)) ips"
    by blast
  have "GetIPs P vm w = (Return (Some ips, None), w')"
    using server netclient l by (simp add: GetIPs_def)
  with p show ?thesis
    by (auto simp: positions_from_def)
qed

lemma GetIPs_positions_example:
  "getServer (scripted no_failure (Some (demo_server ''ACTIVE'' demo_addresses))) provisioned_vm []
     = ((Some (demo_server ''ACTIVE'' demo_addresses), None), [ServersGet ''abc-123''])
   \<and> getNetworkClient (scripted no_failure (Some (demo_server ''ACTIVE'' demo_addresses)))
       provisioned_vm [ServersGet ''abc-123'']
     = ((Some demo_network_client, None), [ServersGet ''abc-123'', NewNetworkClient])
   \<and> elems (Networks provisioned_vm) = [''net-1'']
   \<and> reply_NetworksGet (scripted no_failure (Some (demo_server ''ACTIVE'' demo_addresses)))
       [ServersGet ''abc-123'', NewNetworkClient] demo_network_client ''net-1''
     = Inr \<lparr>net_Name = ''private''\<rparr>
   \<and> wf_entry (map_of (srv_Addresses (demo_server ''ACTIVE'' demo_addresses)) ''private'')
   \<and> GetIPs (scripted no_failure (Some (demo_server ''ACTIVE'' demo_addresses))) provisioned_vm []
     = (Return (Some [Some [0, 0, 0, 0, 0, 0, 0, 0, 0, 0, 255, 255, 172, 24, 4, 10],
                         Some [0, 0, 0, 0, 0, 0, 0, 0, 0, 0, 255, 255, 10, 0, 0, 5]], None),
        [ServersGet ''abc-123'', NewNetworkClient, NetworksGet demo_network_client ''net-1''])"
proof -
  let ?P = "scripted no_failure (Some (demo_server ''ACTIVE'' demo_addresses))"
  have h1: "getServer ?P provisioned_vm []
     = ((Some (demo_server ''ACTIVE'' demo_addresses), None), [ServersGet ''abc-123''])"
    by (simp add: getServer_def scripted_def no_failure_def provisioned_vm_def)
  have h2: "getNetworkClient ?P provisioned_vm [ServersGet ''abc-123'']
     = ((Some demo_network_client, None), [ServersGet ''abc-123'', NewNetworkClient])"
    by (simp add: getNetworkClient_def scripted_def no_failure_def)
  have h3: "\<forall>w. \<forall>nid \<in> set (elems (Networks provisioned_vm)). \<exists>network.
         reply_NetworksGet ?P w demo_network_client nid = Inr network
         \<and> wf_entry (map_of (srv_Addresses (demo_server ''ACTIVE'' demo_addresses))
                      (net_Name network))"
    by (simp add: scripted_def no_failure_def fail_with_def demo_server_def demo_addresses_def
          wf_entry_def wf_block_def)
  have g: "networks_loop ?P demo_network_client (demo_server ''ACTIVE'' demo_addresses)
             [''net-1''] [None, None] [ServersGet ''abc-123'', NewNetworkClient]
           = (Return (Some [Some [0, 0, 0, 0, 0, 0, 0, 0, 0, 0, 255, 255, 172, 24, 4, 10],
                         Some [0, 0, 0, 0, 0, 0, 0, 0, 0, 0, 255, 255, 10, 0, 0, 5]], None),
              [ServersGet ''abc-123'', NewNetworkClient, NetworksGet demo_network_client ''net-1''])"
    by (simp add: networks_Get_def scripted_def no_failure_def fail_with_def demo_server_def
          demo_addresses_def demo_ParseIP_def PublicIP_def PrivateIP_def)
  from GetIPs_positions_well_formed [OF h1 h2 h3] obtain ips w' where
    r: "GetIPs ?P provisioned_vm [] = (Return (Some ips, None), w')"
    by blast
  have "GetIPs ?P provisioned_vm [] =
          networks_loop ?P demo_network_client (demo_server ''ACTIVE'' demo_addresses)
             [''net-1''] [None, None] [ServersGet ''abc-123'', NewNetworkClient]"
    using h1 h2 by (simp add: GetIPs_def elems_def provisioned_vm_def demo_vm_def)
  moreover have "elems (Networks provisioned_vm) = [''net-1'']"
    by (simp add: elems_def provisioned_vm_def demo_vm_def)
  moreover have "reply_NetworksGet ?P [ServersGet ''abc-123'', NewNetworkClient]
                   demo_network_client ''net-1'' = Inr \<lparr>net_Name = ''private''\<rparr>"
    by (simp add: scripted_def no_failure_def fail_with_def)
  moreover have "wf_entry (map_of (srv_Addresses (demo_server ''ACTIVE'' demo_addresses)) ''private'')"
    by (simp add: demo_server_def demo_addresses_def wf_entry_def wf_block_def)
  ultimately show ?thesis using g h1 h2 r by simp
qed

text \<open>
  C8. GetIPs is to return a slice of exactly two positions whenever the lookups of the
  server and of the networks succeed. In the run below they do: the server is found, still
  building and with an empty address table; the network client is obtained; the network
  of the descriptor is found, under the name private. The table has no entry under that
  name, so the one-value type assertion of line 407 is applied to a nil interface and
  GetIPs panics. It returns neither the slice of two positions nor, as its comment
  (lines 385-387) and its three error returns would have it, nil and an error.
\<close>

theorem GetIPs_missing_addresses_panics:
  "getServer (scripted no_failure (Some (demo_server ''BUILD'' []))) provisioned_vm []
     = ((Some (demo_server ''BUILD'' []), None), [ServersGet ''abc-123''])
   \<and> getNetworkClient (scripted no_failure (Some (demo_server ''BUILD'' [])))
       provisioned_vm [ServersGet ''abc-123'']
     = ((Some demo_network_client, None), [ServersGet ''abc-123'', NewNetworkClient])
   \<and> networks_Get (scripted no_failure (Some (demo_server ''BUILD'' []))) demo_network_client
       ''net-1'' [ServersGet ''abc-123'', NewNetworkClient]
     = (Inr \<lparr>net_Name = ''private''\<rparr>,
        [ServersGet ''abc-123'', NewNetworkClient, NetworksGet demo_network_client ''net-1''])
   \<and> GetIPs (scripted no_failure (Some (demo_server ''BUILD'' []))) provisioned_vm []
     = (Panic, [ServersGet ''abc-123'', NewNetworkClient, NetworksGet demo_network_client ''net-1''])"
  by (simp add: GetIPs_def getServer_def getNetworkClient_def networks_Get_def elems_def
        scripted_def no_failure_def fail_with_def demo_server_def provisioned_vm_def demo_vm_def)

section \<open>MarshalJSON without a floating IP\<close>

text \<open>
  C9. A descriptor whose floating-IP record is nil: the entry \<^verbatim>\<open>FloatingIP\<close> of the
  decoded document is null, the type assertion of line 258 fails and MarshalJSON panics;
  it neither returns an error nor leaves the field out. A descriptor that has a
  floating-IP record is serialized and no error is returned.
\<close>

theorem MarshalJSON_nil_floating_ip_panics:
  "(FloatingIP vm = None \<longrightarrow> MarshalJSON fip_fields vm = Panic)
   \<and> (FloatingIP vm' = Some fip \<longrightarrow> (\<exists>j. MarshalJSON fip_fields vm' = Return (j, None)))"
  by (simp add: MarshalJSON_def json_vmAlias_def)

theorem MarshalJSON_nil_floating_ip_panics_witness:
  "FloatingIP demo_vm = None \<and> MarshalJSON demo_fip_fields demo_vm = Panic
   \<and> FloatingIP provisioned_vm = Some demo_fip
   \<and> (\<exists>j. MarshalJSON demo_fip_fields provisioned_vm = Return (j, None))"
proof -
  have h1: "FloatingIP demo_vm = None"
    by (simp add: demo_vm_def)
  have h2: "FloatingIP provisioned_vm = Some demo_fip"
    by (simp add: provisioned_vm_def)
  from MarshalJSON_nil_floating_ip_panics [of demo_vm demo_fip_fields provisioned_vm demo_fip]
       h1 h2
  show ?thesis by blast
qed

section \<open>GetIPs: no addresses and no error\<close>

text \<open>
  C10. When the lookup of the server yields no server and no error, GetIPs returns a nil
  slice and a nil error. When the lookup yields a server and the network client is then
  nil with no error, GetIPs again returns a nil slice and a nil error.
\<close>

theorem GetIPs_nil_without_error:
  "(getServer P vm w = ((None, None), w1) \<longrightarrow> GetIPs P vm w = (Return (None, None), w1))
   \<and> (getServer P' vm' w' = ((Some server, None), w1') \<longrightarrow>
       getNetworkClient P' vm' w1' = ((None, None), w2') \<longrightarrow>
       GetIPs P' vm' w' = (Return (None, None), w2'))"
  by (simp add: GetIPs_def)

theorem GetIPs_nil_without_error_witness:
  "getServer (scripted no_failure None) provisioned_vm [] = ((None, None), [ServersGet ''abc-123''])
   \<and> GetIPs (scripted no_failure None) provisioned_vm []
       = (Return (None, None), [ServersGet ''abc-123''])
   \<and> getServer no_network_client provisioned_vm []
       = ((Some (demo_server ''ACTIVE'' demo_addresses), None), [ServersGet ''abc-123''])
   \<and> getNetworkClient no_network_client provisioned_vm [ServersGet ''abc-123'']
       = ((None, None), [ServersGet ''abc-123'', NewNetworkClient])
   \<and> GetIPs no_network_client provisioned_vm []
       = (Return (None, None), [ServersGet ''abc-123'', NewNetworkClient])"
proof -
  have h1: "getServer (scripted no_failure None) provisioned_vm []
              = ((None, None), [ServersGet ''abc-123''])"
    by (simp add: getServer_def scripted_def no_failure_def provisioned_vm_def)
  have h2: "getServer no_network_client provisioned_vm []
       = ((Some (demo_server ''ACTIVE'' demo_addresses), None), [ServersGet ''abc-123''])"
    by (simp add: getServer_def no_network_client_def scripted_def no_failure_def
          provisioned_vm_def)
  have h3: "getNetworkClient no_network_client provisioned_vm [ServersGet ''abc-123'']
       = ((None, None), [ServersGet ''abc-123'', NewNetworkClient])"
    by (simp add: getNetworkClient_def no_network_client_def)
  from GetIPs_nil_without_error
         [of "scripted no_failure None" provisioned_vm "[]" "[ServersGet ''abc-123'']"
             no_network_client provisioned_vm "[]" "demo_server ''ACTIVE'' demo_addresses"
             "[ServersGet ''abc-123'']" "[ServersGet ''abc-123'', NewNetworkClient]"]
       h1 h2 h3
  show ?thesis by simp
qed

end
